theory Spec2Isabelle
  imports Complex_Main "HOL-Library.Word"
begin

section \<open>JavaScript strings\<close>

text \<open>
  A JavaScript string is a sequence of 16-bit code units; \<open>length\<close>, \<open>slice\<close>,
  \<open>split\<close> and \<open>startsWith\<close> all count code units. The literals of
  \<^verbatim>\<open>ChatView.tsx\<close> are ASCII and are written \<open>js ''...''\<close>.
\<close>

type_synonym jschar = "16 word"
type_synonym jsstring = "jschar list"
type_synonym byte = "8 word"

definition js :: "string \<Rightarrow> jsstring" where
  "js s = map of_char s"

definition ascii :: "string \<Rightarrow> byte list" where
  "ascii s = map of_char s"

definition nl :: jschar where
  "nl = 0x0A"

text \<open>\<^verbatim>\<open>s.startsWith(p)\<close>\<close>

fun starts_with :: "jsstring \<Rightarrow> jsstring \<Rightarrow> bool" where
  "starts_with s [] = True"
| "starts_with [] (p # ps) = False"
| "starts_with (c # cs) (p # ps) = (c = p \<and> starts_with cs ps)"

text \<open>\<^verbatim>\<open>s.slice(n)\<close> for \<open>n \<ge> 0\<close>, and \<^verbatim>\<open>s.slice(-n)\<close> for \<open>n > 0\<close>.\<close>

definition slice_from :: "nat \<Rightarrow> jsstring \<Rightarrow> jsstring" where
  "slice_from n s = drop n s"

definition slice_last :: "nat \<Rightarrow> jsstring \<Rightarrow> jsstring" where
  "slice_last n s = drop (length s - n) s"

text \<open>
  \<^verbatim>\<open>s.split('\n')\<close>: the pieces between the line feeds; the empty string splits into
  one empty piece, so the result is never empty.
\<close>

fun split_nl :: "jsstring \<Rightarrow> jsstring list" where
  "split_nl [] = [[]]"
| "split_nl (c # cs) =
     (if c = nl then [] # split_nl cs
      else (case split_nl cs of [] \<Rightarrow> [[c]] | l # ls \<Rightarrow> (c # l) # ls))"

text \<open>\<^verbatim>\<open>s.trim()\<close> removes the WhiteSpace and LineTerminator code units at both ends.\<close>

definition js_whitespace :: "jschar \<Rightarrow> bool" where
  "js_whitespace c \<longleftrightarrow>
     c = 0x09 \<or> c = 0x0A \<or> c = 0x0B \<or> c = 0x0C \<or> c = 0x0D \<or> c = 0x20 \<or> c = 0xA0 \<or>
     c = 0x1680 \<or> (0x2000 \<le> c \<and> c \<le> 0x200A) \<or> c = 0x2028 \<or> c = 0x2029 \<or>
     c = 0x202F \<or> c = 0x205F \<or> c = 0x3000 \<or> c = 0xFEFF"

definition trim :: "jsstring \<Rightarrow> jsstring" where
  "trim s = rev (dropWhile js_whitespace (rev (dropWhile js_whitespace s)))"


section \<open>The streaming text decoder\<close>

text \<open>
  \<^verbatim>\<open>new TextDecoder()\<close> with \<^verbatim>\<open>decode(value, { stream: true })\<close> is the UTF-8 decoder
  of the Encoding standard: a state machine that is fed one byte at a time and keeps its
  state from one call to the next. A malformed sequence yields U+FFFD and the offending
  byte is looked at again; a leading byte order mark is dropped; a code point above
  U+FFFF becomes a surrogate pair.
\<close>

record utf8_decoder =
  code_point :: nat
  bytes_seen :: nat
  bytes_needed :: nat
  lower_boundary :: nat
  upper_boundary :: nat
  bom_seen :: bool

definition new_decoder :: utf8_decoder where
  "new_decoder = \<lparr>code_point = 0, bytes_seen = 0, bytes_needed = 0,
     lower_boundary = 0x80, upper_boundary = 0xBF, bom_seen = False\<rparr>"

definition utf8_reset :: "utf8_decoder \<Rightarrow> utf8_decoder" where
  "utf8_reset d = d\<lparr>code_point := 0, bytes_seen := 0, bytes_needed := 0,
     lower_boundary := 0x80, upper_boundary := 0xBF\<rparr>"

text \<open>The handler when no continuation byte is awaited; the result lists code points.\<close>

definition utf8_lead :: "utf8_decoder \<Rightarrow> nat \<Rightarrow> utf8_decoder \<times> nat list" where
  "utf8_lead d b =
     (if b \<le> 0x7F then (d, [b])
      else if 0xC2 \<le> b \<and> b \<le> 0xDF then
        (d\<lparr>bytes_needed := 1, code_point := b mod 32\<rparr>, [])
      else if 0xE0 \<le> b \<and> b \<le> 0xEF then
        (d\<lparr>lower_boundary := (if b = 0xE0 then 0xA0 else lower_boundary d),
           upper_boundary := (if b = 0xED then 0x9F else upper_boundary d),
           bytes_needed := 2, code_point := b mod 16\<rparr>, [])
      else if 0xF0 \<le> b \<and> b \<le> 0xF4 then
        (d\<lparr>lower_boundary := (if b = 0xF0 then 0x90 else lower_boundary d),
           upper_boundary := (if b = 0xF4 then 0x8F else upper_boundary d),
           bytes_needed := 3, code_point := b mod 8\<rparr>, [])
      else (d, [0xFFFD]))"

definition utf8_handler :: "utf8_decoder \<Rightarrow> nat \<Rightarrow> utf8_decoder \<times> nat list" where
  "utf8_handler d b =
     (if bytes_needed d = 0 then utf8_lead d b
      else if b < lower_boundary d \<or> upper_boundary d < b then
        (case utf8_lead (utf8_reset d) b of (d', out) \<Rightarrow> (d', 0xFFFD # out))
      else
        (let cp = code_point d * 64 + b mod 64; seen = bytes_seen d + 1 in
         if seen \<noteq> bytes_needed d then
           (d\<lparr>lower_boundary := 0x80, upper_boundary := 0xBF,
              code_point := cp, bytes_seen := seen\<rparr>, [])
         else (utf8_reset d, [cp])))"

definition utf16_units :: "nat \<Rightarrow> jsstring" where
  "utf16_units cp =
     (if cp < 0x10000 then [of_nat cp]
      else [of_nat (0xD800 + (cp - 0x10000) div 0x400),
            of_nat (0xDC00 + (cp - 0x10000) mod 0x400)])"

definition utf8_step :: "utf8_decoder \<Rightarrow> byte \<Rightarrow> utf8_decoder \<times> jsstring" where
  "utf8_step d b =
     (case utf8_handler d (unat b) of (d', cps) \<Rightarrow>
        if cps = [] then (d', [])
        else (d'\<lparr>bom_seen := True\<rparr>,
              concat (map utf16_units
                (if \<not> bom_seen d' \<and> hd cps = 0xFEFF then tl cps else cps))))"

text \<open>\<^verbatim>\<open>decoder.decode(value, { stream: true })\<close> on one chunk.\<close>

fun decode :: "utf8_decoder \<Rightarrow> byte list \<Rightarrow> utf8_decoder \<times> jsstring" where
  "decode d [] = (d, [])"
| "decode d (b # bs) =
     (case utf8_step d b of (d1, out1) \<Rightarrow>
        (case decode d1 bs of (d2, out2) \<Rightarrow> (d2, out1 @ out2)))"


section \<open>The line framer\<close>

text \<open>
  One round of the read loop up to the \<^verbatim>\<open>for\<close>: the chunk is decoded and appended
  to \<^verbatim>\<open>buffer\<close>, the buffer is split at the line feeds, and the last piece is popped
  back into \<^verbatim>\<open>buffer\<close> (\<^verbatim>\<open>lines.pop() || ''\<close>).
\<close>

type_synonym framer_state = "utf8_decoder \<times> jsstring"

definition read_lines :: "framer_state \<Rightarrow> byte list \<Rightarrow> framer_state \<times> jsstring list" where
  "read_lines fs chunk =
     (case fs of (d, buffer) \<Rightarrow>
        (case decode d chunk of (d', text) \<Rightarrow>
           (let lines = split_nl (buffer @ text) in
            ((d', if lines = [] then [] else last lines), butlast lines))))"

text \<open>The test of \<^verbatim>\<open>if (!line.startsWith('data: ')) continue\<close>.\<close>

definition is_frame :: "jsstring \<Rightarrow> bool" where
  "is_frame line = starts_with line (js ''data: '')"

text \<open>The frames that reach the body of the \<^verbatim>\<open>for\<close> loop, over all the rounds.\<close>

fun framer :: "framer_state \<Rightarrow> byte list list \<Rightarrow> jsstring list" where
  "framer fs [] = []"
| "framer fs (chunk # chunks) =
     (case read_lines fs chunk of (fs', lines) \<Rightarrow> filter is_frame lines @ framer fs' chunks)"

text \<open>The lines of a text that are closed by a line feed.\<close>

definition complete_lines :: "jsstring \<Rightarrow> jsstring list" where
  "complete_lines t = butlast (split_nl t)"


section \<open>JSON values and the JavaScript platform\<close>

text \<open>
  What \<^verbatim>\<open>JSON.parse\<close> returns. A number is a finite double, hence a rational; the
  members of an object are kept in source order, and a repeated key is read at its last
  occurrence. \<open>Undefined\<close> is the value of a missing property.
\<close>

datatype json =
    JNull
  | JBool bool
  | JNum rat
  | JStr jsstring
  | JArr "json list"
  | JObj "(jsstring \<times> json) list"

datatype jsval = Undefined | Val json

text \<open>ToBoolean, as in \<^verbatim>\<open>if (v)\<close>, \<^verbatim>\<open>a || b\<close> and \<^verbatim>\<open>c ? x : y\<close>.\<close>

fun truthy :: "jsval \<Rightarrow> bool" where
  "truthy Undefined = False"
| "truthy (Val JNull) = False"
| "truthy (Val (JBool b)) = b"
| "truthy (Val (JNum n)) = (n \<noteq> 0)"
| "truthy (Val (JStr s)) = (s \<noteq> [])"
| "truthy (Val (JArr xs)) = True"
| "truthy (Val (JObj kvs)) = True"

definition js_or :: "jsval \<Rightarrow> jsval \<Rightarrow> jsval" where
  "js_or a b = (if truthy a then a else b)"

text \<open>
  \<^verbatim>\<open>a === b\<close> between values that come from different calls of \<^verbatim>\<open>JSON.parse\<close>:
  primitives are compared by value, and two objects or arrays are never the same object.
\<close>

fun is_primitive :: "jsval \<Rightarrow> bool" where
  "is_primitive (Val (JArr xs)) = False"
| "is_primitive (Val (JObj kvs)) = False"
| "is_primitive v = True"

definition strict_eq :: "jsval \<Rightarrow> jsval \<Rightarrow> bool" where
  "strict_eq a b \<longleftrightarrow> is_primitive a \<and> a = b"

text \<open>
  \<^verbatim>\<open>v.k\<close> for a key \<open>k\<close> that no prototype defines (all the keys read in
  \<^verbatim>\<open>ChatView.tsx\<close> are such): \<open>None\<close> is the TypeError of reading a property of
  \<^verbatim>\<open>null\<close>.
\<close>

fun get_prop :: "json \<Rightarrow> jsstring \<Rightarrow> jsval option" where
  "get_prop JNull k = None"
| "get_prop (JObj kvs) k =
     Some (case map_of (rev kvs) k of None \<Rightarrow> Undefined | Some v \<Rightarrow> Val v)"
| "get_prop v k = Some Undefined"

text \<open>
  The parts of the platform that are not written out here are parameters of the model:
  \<^verbatim>\<open>JSON.parse\<close> (\<open>None\<close> when it throws), \<^verbatim>\<open>JSON.stringify\<close>, the decimal form
  of a number, \<^verbatim>\<open>String(Math.round(v))\<close>, and the message of the engine's TypeError.
\<close>

record platform =
  json_parse :: "jsstring \<Rightarrow> json option"
  json_stringify :: "json \<Rightarrow> jsstring"
  number_to_string :: "rat \<Rightarrow> jsstring"
  round_to_string :: "jsval \<Rightarrow> jsstring"
  type_error_message :: jsstring

text \<open>\<^verbatim>\<open>xs.join(sep)\<close> on pieces that are strings already.\<close>

fun join :: "jsstring \<Rightarrow> jsstring list \<Rightarrow> jsstring" where
  "join sep [] = []"
| "join sep [x] = x"
| "join sep (x # y # ys) = x @ sep @ join sep (y # ys)"

text \<open>
  ToString, as applied by \<^verbatim>\<open>+=\<close> on a string, by a template literal, by
  \<^verbatim>\<open>new Error(v)\<close> and by \<^verbatim>\<open>JSON.parse(v)\<close> to its argument.
\<close>

fun json_to_string :: "platform \<Rightarrow> json \<Rightarrow> jsstring" where
  "json_to_string P JNull = js ''null''"
| "json_to_string P (JBool b) = (if b then js ''true'' else js ''false'')"
| "json_to_string P (JNum n) = number_to_string P n"
| "json_to_string P (JStr s) = s"
| "json_to_string P (JArr xs) =
     join (js '','')
       (map (\<lambda>x. if x = JNull then [] else json_to_string P x) xs)"
| "json_to_string P (JObj kvs) = js ''[object Object]''"

definition js_String :: "platform \<Rightarrow> jsval \<Rightarrow> jsstring" where
  "js_String P v = (case v of Undefined \<Rightarrow> js ''undefined'' | Val j \<Rightarrow> json_to_string P j)"

definition is_string :: "jsval \<Rightarrow> bool" where
  "is_string v = (case v of Val (JStr s) \<Rightarrow> True | _ \<Rightarrow> False)"

definition field :: "json \<Rightarrow> string \<Rightarrow> jsval" where
  "field v k = (case get_prop v (js k) of None \<Rightarrow> Undefined | Some x \<Rightarrow> x)"


section \<open>The state of the chat view\<close>

record tool_use_info =
  tu_id :: jsval
  tu_name :: jsval
  tu_input :: jsval

record tool_result_info =
  tr_tool_use_id :: jsval
  tr_content :: jsval

datatype role = User | Assistant

text \<open>
  A \<^verbatim>\<open>Message\<close>. Its \<^verbatim>\<open>id\<close> is a literal prefix followed by \<^verbatim>\<open>Date.now()\<close> and its
  \<^verbatim>\<open>created_at\<close> is the wall clock; the prefix is kept and the clock is left out.
\<close>

record message =
  m_id_prefix :: jsstring
  m_session_id :: jsstring
  m_role :: role
  m_content :: jsstring
  m_token_usage :: "jsstring option"

datatype resolved = Allow | Deny

datatype decision = DecideAllow | DecideAllowSession | DecideDeny

text \<open>The two callbacks handed to \<^verbatim>\<open>setTimeout\<close>.\<close>

datatype timer = ClearStatus | ClearPermission

text \<open>The body of the POST to \<^verbatim>\<open>/api/chat\<close>.\<close>

record request =
  req_session_id :: jsstring
  req_content :: jsstring
  req_mode :: jsstring
  req_model :: jsstring

text \<open>The body of the POST to \<^verbatim>\<open>/api/chat/permission\<close>.\<close>

record permission_post =
  pp_permissionRequestId :: jsval
  pp_behavior :: resolved
  pp_updatedPermissions :: jsval
  pp_message :: "jsstring option"

text \<open>
  The React state of \<^verbatim>\<open>ChatView\<close>, the two identifiers it keeps in the panel context,
  its two refs, and what it has handed to the outside: the requests issued, the
  permission decisions posted and the timers not yet run. State setters take effect in
  program order. An updater function that throws does so when React runs it, outside
  every \<^verbatim>\<open>try\<close> of the code that called the setter: React then tears the view down,
  which \<open>torn_down\<close> records; from then on the other fields show no view, they only
  keep what the code went on to set.
\<close>

record chat_state =
  sessionId :: jsstring
  messages :: "message list"
  streamingContent :: jsstring
  isStreaming :: bool
  toolUses :: "tool_use_info list"
  toolResults :: "tool_result_info list"
  statusText :: jsval
  mode :: jsstring
  currentModel :: jsstring
  pendingPermission :: json
  permissionResolved :: "resolved option"
  streamingToolOutput :: jsstring
  accumulatedRef :: jsstring
  abortControllerRef :: bool
  streamingSessionId :: jsstring
  pendingApprovalSessionId :: jsstring
  chat_requests :: "request list"
  permission_posts :: "permission_post list"
  timers :: "timer list"
  torn_down :: bool

text \<open>
  The callbacks \<^verbatim>\<open>sendMessage\<close> and \<^verbatim>\<open>handlePermissionResponse\<close> are built by
  \<^verbatim>\<open>useCallback\<close>: inside them \<^verbatim>\<open>isStreaming\<close>, \<^verbatim>\<open>mode\<close>, \<^verbatim>\<open>currentModel\<close> and
  \<^verbatim>\<open>pendingPermission\<close> are the constants of the render that built the callback, not
  the state at the time of the call. A setter does not change them; the next render
  builds new callbacks.
\<close>

record render =
  r_isStreaming :: bool
  r_mode :: jsstring
  r_currentModel :: jsstring
  r_pendingPermission :: json

definition render_of :: "chat_state \<Rightarrow> render" where
  "render_of st =
     \<lparr>r_isStreaming = isStreaming st, r_mode = mode st, r_currentModel = currentModel st,
      r_pendingPermission = pendingPermission st\<rparr>"

text \<open>The local variables of one call of \<^verbatim>\<open>sendMessage\<close>.\<close>

record turn =
  accumulated :: jsstring
  tokenUsage :: json
  buffer :: jsstring
  decoder :: utf8_decoder


section \<open>Folding one event\<close>

text \<open>\<^verbatim>\<open>case 'text'\<close>\<close>

definition on_text :: "platform \<Rightarrow> jsval \<Rightarrow> chat_state \<times> turn \<Rightarrow> chat_state \<times> turn" where
  "on_text P data s =
     (case s of (st, t) \<Rightarrow>
        (let acc = accumulated t @ js_String P data in
         (st\<lparr>accumulatedRef := acc, streamingContent := acc\<rparr>, t\<lparr>accumulated := acc\<rparr>)))"

text \<open>
  \<^verbatim>\<open>case 'tool_use'\<close>: the live output is cleared as soon as the payload has parsed,
  before the list is searched for the id. The payload is read (\<^verbatim>\<open>toolData.id\<close>) inside
  the updater handed to \<^verbatim>\<open>setToolUses\<close>; when the payload is \<^verbatim>\<open>null\<close> that read
  throws inside the updater, which the inner \<^verbatim>\<open>catch\<close> does not see.
\<close>

definition on_tool_use :: "platform \<Rightarrow> jsval \<Rightarrow> chat_state \<Rightarrow> chat_state" where
  "on_tool_use P data st =
     (case json_parse P (js_String P data) of
        None \<Rightarrow> st
      | Some toolData \<Rightarrow>
          (let st1 = st\<lparr>streamingToolOutput := []\<rparr> in
           case get_prop toolData (js ''id'') of
             None \<Rightarrow> st1\<lparr>torn_down := True\<rparr>
           | Some tid \<Rightarrow>
               if list_ex (\<lambda>t. strict_eq (tu_id t) tid) (toolUses st1) then st1
               else st1\<lparr>toolUses := toolUses st1 @
                      [\<lparr>tu_id = tid, tu_name = field toolData ''name'',
                        tu_input = field toolData ''input''\<rparr>]\<rparr>))"

text \<open>
  \<^verbatim>\<open>case 'tool_result'\<close>: \<^verbatim>\<open>resultData.tool_use_id\<close> is read inside the updater handed
  to \<^verbatim>\<open>setToolResults\<close>, with the same effect on the payload \<^verbatim>\<open>null\<close>.
\<close>

definition on_tool_result :: "platform \<Rightarrow> jsval \<Rightarrow> chat_state \<Rightarrow> chat_state" where
  "on_tool_result P data st =
     (case json_parse P (js_String P data) of
        None \<Rightarrow> st
      | Some resultData \<Rightarrow>
          (let st1 = st\<lparr>streamingToolOutput := []\<rparr> in
           case get_prop resultData (js ''tool_use_id'') of
             None \<Rightarrow> st1\<lparr>torn_down := True\<rparr>
           | Some rid \<Rightarrow>
               st1\<lparr>toolResults := toolResults st1 @
                      [\<lparr>tr_tool_use_id = rid, tr_content = field resultData ''content''\<rparr>]\<rparr>))"

text \<open>
  \<^verbatim>\<open>case 'tool_output'\<close>: \<open>progress_heartbeat\<close> is the parsed payload when the inner
  \<^verbatim>\<open>try\<close> reaches \<^verbatim>\<open>setStatusText\<close>, that is when the payload parses and its
  \<^verbatim>\<open>_progress\<close> is truthy.
\<close>

definition progress_heartbeat :: "platform \<Rightarrow> jsval \<Rightarrow> json option" where
  "progress_heartbeat P data =
     (case json_parse P (js_String P data) of
        None \<Rightarrow> None
      | Some parsed \<Rightarrow>
          (case get_prop parsed (js ''_progress'') of
             None \<Rightarrow> None
           | Some flag \<Rightarrow> if truthy flag then Some parsed else None))"

definition append_tool_output :: "jsstring \<Rightarrow> jsstring \<Rightarrow> jsstring" where
  "append_tool_output prev d =
     (let next = prev @ (if prev \<noteq> [] then [nl] else []) @ d in
      if length next > 5000 then slice_last 5000 next else next)"

definition on_tool_output :: "platform \<Rightarrow> jsval \<Rightarrow> chat_state \<Rightarrow> chat_state" where
  "on_tool_output P data st =
     (case progress_heartbeat P data of
        Some parsed \<Rightarrow>
          st\<lparr>statusText := Val (JStr (js ''Running '' @ js_String P (field parsed ''tool_name'') @
                js ''... ('' @ round_to_string P (field parsed ''elapsed_time_seconds'') @
                js ''s)''))\<rparr>
      | None \<Rightarrow>
          st\<lparr>streamingToolOutput :=
                append_tool_output (streamingToolOutput st) (js_String P data)\<rparr>)"

text \<open>\<^verbatim>\<open>case 'status'\<close>\<close>

definition on_status :: "platform \<Rightarrow> jsval \<Rightarrow> chat_state \<Rightarrow> chat_state" where
  "on_status P data st =
     (case json_parse P (js_String P data) of
        None \<Rightarrow> st\<lparr>statusText := js_or data Undefined\<rparr>
      | Some statusData \<Rightarrow>
          (case get_prop statusData (js ''session_id'') of
             None \<Rightarrow> st\<lparr>statusText := js_or data Undefined\<rparr>
           | Some sid \<Rightarrow>
               if truthy sid then
                 st\<lparr>statusText := Val (JStr (js ''Connected ('' @
                        js_String P (js_or (field statusData ''model'') (Val (JStr (js ''claude'')))) @
                        js '')'')),
                    timers := timers st @ [ClearStatus]\<rparr>
               else if truthy (field statusData ''notification'') then
                 st\<lparr>statusText := js_or (field statusData ''message'')
                        (js_or (field statusData ''title'') Undefined)\<rparr>
               else st\<lparr>statusText := (if is_string data then data else Undefined)\<rparr>))"

text \<open>\<^verbatim>\<open>case 'result'\<close>\<close>

definition on_result :: "platform \<Rightarrow> jsval \<Rightarrow> chat_state \<times> turn \<Rightarrow> chat_state \<times> turn" where
  "on_result P data s =
     (case s of (st, t) \<Rightarrow>
        (st\<lparr>statusText := Undefined\<rparr>,
         (case json_parse P (js_String P data) of
            None \<Rightarrow> t
          | Some resultData \<Rightarrow>
              (case get_prop resultData (js ''usage'') of
                 Some (Val usage) \<Rightarrow> if truthy (Val usage) then t\<lparr>tokenUsage := usage\<rparr> else t
               | _ \<Rightarrow> t))))"

text \<open>\<^verbatim>\<open>case 'permission_request'\<close>\<close>

definition on_permission_request :: "platform \<Rightarrow> jsval \<Rightarrow> chat_state \<Rightarrow> chat_state" where
  "on_permission_request P data st =
     (case json_parse P (js_String P data) of
        None \<Rightarrow> st
      | Some permData \<Rightarrow>
          st\<lparr>pendingPermission := permData, permissionResolved := None,
             pendingApprovalSessionId := sessionId st\<rparr>)"

text \<open>\<^verbatim>\<open>case 'error'\<close>\<close>

definition on_error :: "platform \<Rightarrow> jsval \<Rightarrow> chat_state \<times> turn \<Rightarrow> chat_state \<times> turn" where
  "on_error P data s =
     (case s of (st, t) \<Rightarrow>
        (let acc = accumulated t @ [nl, nl] @ js ''**Error:** '' @ js_String P data in
         (st\<lparr>accumulatedRef := acc, streamingContent := acc\<rparr>, t\<lparr>accumulated := acc\<rparr>)))"

text \<open>
  The \<^verbatim>\<open>switch (event.type)\<close>. \<open>None\<close> is the TypeError of \<^verbatim>\<open>event.type\<close> on
  \<^verbatim>\<open>null\<close>, which the outer \<^verbatim>\<open>catch\<close> swallows; \<^verbatim>\<open>'done'\<close> and any other type
  change nothing.
\<close>

definition is_type :: "jsval \<Rightarrow> string \<Rightarrow> bool" where
  "is_type ty name = strict_eq ty (Val (JStr (js name)))"

definition handle_event ::
  "platform \<Rightarrow> json \<Rightarrow> chat_state \<times> turn \<Rightarrow> (chat_state \<times> turn) option" where
  "handle_event P event s =
     (case get_prop event (js ''type'') of
        None \<Rightarrow> None
      | Some ty \<Rightarrow>
          (let data = field event ''data'' in
           Some (if is_type ty ''text'' then on_text P data s
                 else if is_type ty ''tool_use'' then (on_tool_use P data (fst s), snd s)
                 else if is_type ty ''tool_result'' then (on_tool_result P data (fst s), snd s)
                 else if is_type ty ''tool_output'' then (on_tool_output P data (fst s), snd s)
                 else if is_type ty ''status'' then (on_status P data (fst s), snd s)
                 else if is_type ty ''result'' then on_result P data s
                 else if is_type ty ''permission_request'' then
                   (on_permission_request P data (fst s), snd s)
                 else if is_type ty ''error'' then on_error P data s
                 else s)))"

text \<open>The \<^verbatim>\<open>switch\<close> inside the outer \<^verbatim>\<open>try\<close>: one decoded event folded into the state.\<close>

definition fold_event :: "platform \<Rightarrow> json \<Rightarrow> chat_state \<times> turn \<Rightarrow> chat_state \<times> turn" where
  "fold_event P event s = (case handle_event P event s of None \<Rightarrow> s | Some s' \<Rightarrow> s')"

text \<open>
  One round of \<^verbatim>\<open>for (const line of lines)\<close>: a line that is no frame is skipped, and
  a frame whose text \<^verbatim>\<open>JSON.parse\<close> rejects is dropped by the outer \<^verbatim>\<open>catch\<close>.
\<close>

definition handle_line :: "platform \<Rightarrow> jsstring \<Rightarrow> chat_state \<times> turn \<Rightarrow> chat_state \<times> turn" where
  "handle_line P line s =
     (if \<not> is_frame line then s
      else (case json_parse P (slice_from 6 line) of
              None \<Rightarrow> s
            | Some event \<Rightarrow> fold_event P event s))"

text \<open>One round of \<^verbatim>\<open>while (true)\<close> in which \<^verbatim>\<open>reader.read()\<close> yields a chunk.\<close>

definition read_round :: "platform \<Rightarrow> byte list \<Rightarrow> chat_state \<times> turn \<Rightarrow> chat_state \<times> turn" where
  "read_round P chunk s =
     (case s of (st, t) \<Rightarrow>
        (case read_lines (decoder t, buffer t) chunk of
           ((d', buffer'), lines) \<Rightarrow>
             fold (handle_line P) lines (st, t\<lparr>buffer := buffer', decoder := d'\<rparr>)))"


section \<open>The turn: \<^verbatim>\<open>sendMessage\<close>\<close>

text \<open>
  What the network does to one call of \<^verbatim>\<open>sendMessage\<close>. A rejected \<^verbatim>\<open>await\<close>
  throws the \<^verbatim>\<open>AbortError\<close> of the abort signal, some other \<^verbatim>\<open>Error\<close> with its
  message, or a value that is no \<^verbatim>\<open>Error\<close>. The response is a rejected
  \<^verbatim>\<open>fetch\<close>, a response that is not \<^verbatim>\<open>ok\<close> (with what \<^verbatim>\<open>response.json()\<close> does),
  a response without a body, or a body: the chunks that \<^verbatim>\<open>reader.read()\<close> yields,
  then either \<^verbatim>\<open>done\<close> or a rejected read.
\<close>

datatype thrown = AbortError | ErrorObj jsstring | NonError

datatype response =
    FetchRejected thrown
  | NotOk "thrown + json"
  | NoBody
  | Body "byte list list" "thrown option"

text \<open>
  From the guard to \<^verbatim>\<open>await fetch\<close>: the optimistic user message, the reset of the
  turn state, the new abort controller and the request, whose mode and model are those
  of the render.
\<close>

definition begin_turn :: "render \<Rightarrow> jsstring \<Rightarrow> chat_state \<Rightarrow> chat_state \<times> turn" where
  "begin_turn rn content st =
     (st\<lparr>messages := messages st @
            [\<lparr>m_id_prefix = js ''temp-'', m_session_id = sessionId st, m_role = User,
              m_content = content, m_token_usage = None\<rparr>],
         isStreaming := True,
         streamingSessionId := sessionId st,
         streamingContent := [],
         accumulatedRef := [],
         toolUses := [],
         toolResults := [],
         statusText := Undefined,
         abortControllerRef := True,
         chat_requests := chat_requests st @
            [\<lparr>req_session_id = sessionId st, req_content = content,
              req_mode = r_mode rn, req_model = r_currentModel rn\<rparr>]\<rparr>,
      \<lparr>accumulated = [], tokenUsage = JNull, buffer = [], decoder = new_decoder\<rparr>)"

text \<open>After the loop: \<^verbatim>\<open>if (accumulated.trim())\<close> the assistant message is appended.\<close>

definition complete_turn :: "platform \<Rightarrow> chat_state \<times> turn \<Rightarrow> chat_state" where
  "complete_turn P s =
     (case s of (st, t) \<Rightarrow>
        if trim (accumulated t) \<noteq> [] then
          st\<lparr>messages := messages st @
               [\<lparr>m_id_prefix = js ''temp-assistant-'', m_session_id = sessionId st,
                 m_role = Assistant, m_content = trim (accumulated t),
                 m_token_usage =
                   (if truthy (Val (tokenUsage t)) then Some (json_stringify P (tokenUsage t))
                    else None)\<rparr>]\<rparr>
        else st)"

text \<open>The \<^verbatim>\<open>catch (error)\<close> block.\<close>

definition catch_turn :: "thrown \<Rightarrow> chat_state \<times> turn \<Rightarrow> chat_state" where
  "catch_turn e s =
     (case s of (st, t) \<Rightarrow>
        (case e of
           AbortError \<Rightarrow>
             if trim (accumulated t) \<noteq> [] then
               st\<lparr>messages := messages st @
                    [\<lparr>m_id_prefix = js ''temp-assistant-'', m_session_id = sessionId st,
                      m_role = Assistant,
                      m_content = trim (accumulated t) @ [nl, nl] @ js ''*(generation stopped)*'',
                      m_token_usage = None\<rparr>]\<rparr>
             else st
         | _ \<Rightarrow>
             (let errMsg = (case e of ErrorObj m \<Rightarrow> m | _ \<Rightarrow> js ''Unknown error'') in
              st\<lparr>messages := messages st @
                   [\<lparr>m_id_prefix = js ''temp-error-'', m_session_id = sessionId st,
                     m_role = Assistant, m_content = js ''**Error:** '' @ errMsg,
                     m_token_usage = None\<rparr>]\<rparr>)))"

text \<open>The \<^verbatim>\<open>finally\<close> block.\<close>

definition cleanup :: "chat_state \<Rightarrow> chat_state" where
  "cleanup st =
     st\<lparr>isStreaming := False,
        streamingSessionId := [],
        streamingContent := [],
        accumulatedRef := [],
        toolUses := [],
        toolResults := [],
        streamingToolOutput := [],
        statusText := Undefined,
        pendingPermission := JNull,
        permissionResolved := None,
        pendingApprovalSessionId := [],
        abortControllerRef := False\<rparr>"

text \<open>
  How a turn that has begun ends: the loop is left by \<^verbatim>\<open>done\<close> (\<open>None\<close>) or an
  \<^verbatim>\<open>await\<close> throws; then \<^verbatim>\<open>finally\<close> runs.
\<close>

definition end_turn :: "platform \<Rightarrow> thrown option \<Rightarrow> chat_state \<times> turn \<Rightarrow> chat_state" where
  "end_turn P ending s =
     cleanup (case ending of None \<Rightarrow> complete_turn P s | Some e \<Rightarrow> catch_turn e s)"

text \<open>What \<^verbatim>\<open>throw new Error(err.error || 'Failed to send message')\<close> throws.\<close>

definition not_ok_error :: "platform \<Rightarrow> thrown + json \<Rightarrow> thrown" where
  "not_ok_error P r =
     (case r of
        Inl e \<Rightarrow> e
      | Inr err \<Rightarrow>
          (case get_prop err (js ''error'') of
             None \<Rightarrow> ErrorObj (type_error_message P)
           | Some v \<Rightarrow>
               ErrorObj (js_String P (js_or v (Val (JStr (js ''Failed to send message'')))))))"

text \<open>
  The whole of \<^verbatim>\<open>sendMessage(content)\<close>, called through the callback of the render
  \<open>rn\<close>, against a given response, with no other handler of the view running in
  between. The guard \<^verbatim>\<open>if (isStreaming) return\<close> reads the flag of the render.
\<close>

definition sendMessage ::
  "platform \<Rightarrow> render \<Rightarrow> jsstring \<Rightarrow> response \<Rightarrow> chat_state \<Rightarrow> chat_state" where
  "sendMessage P rn content resp st =
     (if r_isStreaming rn then st
      else
        (let s0 = begin_turn rn content st in
         case resp of
           FetchRejected e \<Rightarrow> end_turn P (Some e) s0
         | NotOk r \<Rightarrow> end_turn P (Some (not_ok_error P r)) s0
         | NoBody \<Rightarrow> end_turn P (Some (ErrorObj (js ''No response stream''))) s0
         | Body chunks ending \<Rightarrow> end_turn P ending (fold (read_round P) chunks s0)))"

text \<open>\<^verbatim>\<open>stopStreaming\<close>: the signal is aborted, so the pending \<^verbatim>\<open>await\<close> of the turn
  throws \<^verbatim>\<open>AbortError\<close>, and the ref is cleared.\<close>

definition stopStreaming :: "chat_state \<Rightarrow> chat_state" where
  "stopStreaming st = st\<lparr>abortControllerRef := False\<rparr>"

definition cancel_turn :: "platform \<Rightarrow> chat_state \<times> turn \<Rightarrow> chat_state" where
  "cancel_turn P s = end_turn P (Some AbortError) (stopStreaming (fst s), snd s)"


section \<open>The permission handshake and the timers\<close>

text \<open>
  \<^verbatim>\<open>handlePermissionResponse\<close> in its two synchronous parts: up to \<^verbatim>\<open>await fetch\<close>,
  and from the moment the \<^verbatim>\<open>fetch\<close> has settled, resolved (\<open>True\<close>) or rejected
  (\<open>False\<close>), where the one-second timer is set. The guard and the body of the POST
  read the \<^verbatim>\<open>pendingPermission\<close> of the render.
\<close>

definition permission_body :: "decision \<Rightarrow> json \<Rightarrow> permission_post" where
  "permission_body d pending =
     \<lparr>pp_permissionRequestId = field pending ''permissionRequestId'',
      pp_behavior = (if d = DecideDeny then Deny else Allow),
      pp_updatedPermissions =
        (if d = DecideAllowSession \<and> truthy (field pending ''suggestions'')
         then field pending ''suggestions'' else Undefined),
      pp_message = (if d = DecideDeny then Some (js ''User denied permission'') else None)\<rparr>"

definition permission_decide :: "render \<Rightarrow> decision \<Rightarrow> chat_state \<Rightarrow> chat_state" where
  "permission_decide rn d st =
     (if \<not> truthy (Val (r_pendingPermission rn)) then st
      else st\<lparr>permissionResolved := Some (if d = DecideDeny then Deny else Allow),
              pendingApprovalSessionId := [],
              permission_posts := permission_posts st @
                [permission_body d (r_pendingPermission rn)]\<rparr>)"

definition permission_settled :: "bool \<Rightarrow> chat_state \<Rightarrow> chat_state" where
  "permission_settled delivered st = st\<lparr>timers := timers st @ [ClearPermission]\<rparr>"

definition handlePermissionResponse ::
  "render \<Rightarrow> decision \<Rightarrow> bool \<Rightarrow> chat_state \<Rightarrow> chat_state" where
  "handlePermissionResponse rn d delivered st =
     (if \<not> truthy (Val (r_pendingPermission rn)) then st
      else permission_settled delivered (permission_decide rn d st))"

text \<open>The callbacks of the two \<^verbatim>\<open>setTimeout\<close> calls, and the firing of a pending timer.\<close>

fun run_timer :: "timer \<Rightarrow> chat_state \<Rightarrow> chat_state" where
  "run_timer ClearStatus st = st\<lparr>statusText := Undefined\<rparr>"
| "run_timer ClearPermission st = st\<lparr>pendingPermission := JNull, permissionResolved := None\<rparr>"

definition fire_timer :: "nat \<Rightarrow> chat_state \<Rightarrow> chat_state" where
  "fire_timer i st =
     (if i < length (timers st) then
        run_timer (timers st ! i) (st\<lparr>timers := take i (timers st) @ drop (Suc i) (timers st)\<rparr>)
      else st)"

text \<open>The state of a freshly mounted view without initial messages.\<close>

definition initial_state :: "jsstring \<Rightarrow> chat_state" where
  "initial_state sid =
     \<lparr>sessionId = sid, messages = [], streamingContent = [], isStreaming = False,
      toolUses = [], toolResults = [], statusText = Undefined, mode = js ''code'',
      currentModel = js ''sonnet'', pendingPermission = JNull, permissionResolved = None,
      streamingToolOutput = [], accumulatedRef = [], abortControllerRef = False,
      streamingSessionId = [], pendingApprovalSessionId = [], chat_requests = [],
      permission_posts = [], timers = [], torn_down = False\<rparr>"


section \<open>A reference platform\<close>

text \<open>
  The theorems below hold for every platform. To run the model on concrete streams, the
  parameters are instantiated here: \<^verbatim>\<open>JSON.parse\<close> by a parser of the JSON grammar
  (ECMA-404), \<^verbatim>\<open>JSON.stringify\<close> by the matching printer. They agree with ECMAScript
  on texts whose numbers are integers below \<open>10\<^sup>2\<^sup>1\<close> in absolute value and whose
  objects have distinct keys, none of them an array index; \<open>ref_round_to_string\<close> is
  \<^verbatim>\<open>String(Math.round(v))\<close> for \<open>v\<close> a number, a boolean, \<^verbatim>\<open>null\<close> or
  \<^verbatim>\<open>undefined\<close>.
\<close>

definition json_ws :: "jschar \<Rightarrow> bool" where
  "json_ws c \<longleftrightarrow> c = 0x20 \<or> c = 0x09 \<or> c = 0x0A \<or> c = 0x0D"

definition skip_ws :: "jsstring \<Rightarrow> jsstring" where
  "skip_ws s = dropWhile json_ws s"

definition is_digit :: "jschar \<Rightarrow> bool" where
  "is_digit c \<longleftrightarrow> 0x30 \<le> c \<and> c \<le> 0x39"

definition hex_value :: "jschar \<Rightarrow> nat option" where
  "hex_value c =
     (if 0x30 \<le> c \<and> c \<le> 0x39 then Some (unat c - 0x30)
      else if 0x41 \<le> c \<and> c \<le> 0x46 then Some (unat c - 0x41 + 10)
      else if 0x61 \<le> c \<and> c \<le> 0x66 then Some (unat c - 0x61 + 10)
      else None)"

definition hex4 :: "jschar \<Rightarrow> jschar \<Rightarrow> jschar \<Rightarrow> jschar \<Rightarrow> jschar option" where
  "hex4 a b c d =
     (case (hex_value a, hex_value b, hex_value c, hex_value d) of
        (Some w, Some x, Some y, Some z) \<Rightarrow> Some (of_nat (((w * 16 + x) * 16 + y) * 16 + z))
      | _ \<Rightarrow> None)"

definition unescape :: "jschar \<Rightarrow> jschar option" where
  "unescape e =
     (if e = 0x22 \<or> e = 0x5C \<or> e = 0x2F then Some e
      else if e = 0x62 then Some 0x08
      else if e = 0x66 then Some 0x0C
      else if e = 0x6E then Some 0x0A
      else if e = 0x72 then Some 0x0D
      else if e = 0x74 then Some 0x09
      else None)"

text \<open>A string, read from behind its opening quote; the rest of the text is returned.\<close>

fun parse_string :: "jsstring \<Rightarrow> (jsstring \<times> jsstring) option" where
  "parse_string [] = None"
| "parse_string (c # cs) =
     (if c = 0x22 then Some ([], cs)
      else if c = 0x5C then
        (case cs of
           [] \<Rightarrow> None
         | e # r \<Rightarrow>
             if e = 0x75 then
               (case r of
                  h1 # h2 # h3 # h4 # r' \<Rightarrow>
                    (case hex4 h1 h2 h3 h4 of
                       None \<Rightarrow> None
                     | Some u \<Rightarrow>
                         (case parse_string r' of
                            None \<Rightarrow> None
                          | Some (str, rest) \<Rightarrow> Some (u # str, rest)))
                | _ \<Rightarrow> None)
             else
               (case unescape e of
                  None \<Rightarrow> None
                | Some u \<Rightarrow>
                    (case parse_string r of
                       None \<Rightarrow> None
                     | Some (str, rest) \<Rightarrow> Some (u # str, rest))))
      else if c < 0x20 then None
      else
        (case parse_string cs of
           None \<Rightarrow> None
         | Some (str, rest) \<Rightarrow> Some (c # str, rest)))"

definition digits_value :: "jsstring \<Rightarrow> nat" where
  "digits_value ds = foldl (\<lambda>a d. 10 * a + (unat d - 0x30)) 0 ds"

definition parse_exponent :: "jsstring \<Rightarrow> (int \<times> jsstring) option" where
  "parse_exponent s =
     (case s of
        [] \<Rightarrow> Some (0, s)
      | c # cs \<Rightarrow>
          if c = 0x65 \<or> c = 0x45 then
            (let neg = (cs \<noteq> [] \<and> hd cs = 0x2D);
                 r = (if cs \<noteq> [] \<and> (hd cs = 0x2D \<or> hd cs = 0x2B) then tl cs else cs);
                 ds = takeWhile is_digit r in
             if ds = [] then None
             else Some ((if neg then - int (digits_value ds) else int (digits_value ds)),
                        dropWhile is_digit r))
          else Some (0, s))"

definition parse_fraction :: "jsstring \<Rightarrow> (rat \<times> jsstring) option" where
  "parse_fraction s =
     (case s of
        [] \<Rightarrow> Some (0, s)
      | c # cs \<Rightarrow>
          if c = 0x2E then
            (let ds = takeWhile is_digit cs in
             if ds = [] then None
             else Some (of_nat (digits_value ds) / 10 ^ length ds, dropWhile is_digit cs))
          else Some (0, s))"

definition parse_number :: "jsstring \<Rightarrow> (rat \<times> jsstring) option" where
  "parse_number s =
     (let neg = (s \<noteq> [] \<and> hd s = 0x2D);
          r = (if neg then tl s else s);
          ds = takeWhile is_digit r in
      if ds = [] \<or> (hd ds = 0x30 \<and> length ds > 1) then None
      else
        (case parse_fraction (dropWhile is_digit r) of
           None \<Rightarrow> None
         | Some (fr, r1) \<Rightarrow>
             (case parse_exponent r1 of
                None \<Rightarrow> None
              | Some (e, r2) \<Rightarrow>
                  (let m = of_nat (digits_value ds) + fr;
                       v = (if 0 \<le> e then m * 10 ^ nat e else m / 10 ^ nat (- e)) in
                   Some (if neg then - v else v, r2)))))"

text \<open>An object keeps one member for each key: the first position, the last value.\<close>

fun add_member :: "(jsstring \<times> json) list \<Rightarrow> jsstring \<Rightarrow> json \<Rightarrow> (jsstring \<times> json) list" where
  "add_member [] k v = [(k, v)]"
| "add_member ((k', v') # kvs) k v =
     (if k' = k then (k, v) # kvs else (k', v') # add_member kvs k v)"

text \<open>
  A value with the text behind it, by recursive descent. The counter bounds the depth of
  the recursion; \<open>ref_json_parse\<close> starts it at twice the length of the text plus two.
\<close>

fun parse_value :: "nat \<Rightarrow> jsstring \<Rightarrow> (json \<times> jsstring) option"
  and parse_elements :: "nat \<Rightarrow> jsstring \<Rightarrow> json list \<Rightarrow> (json \<times> jsstring) option"
  and parse_members ::
    "nat \<Rightarrow> jsstring \<Rightarrow> (jsstring \<times> json) list \<Rightarrow> (json \<times> jsstring) option" where
  "parse_value 0 s = None"
| "parse_value (Suc n) s =
     (case skip_ws s of
        [] \<Rightarrow> None
      | c # cs \<Rightarrow>
          if c = 0x7B then
            (case skip_ws cs of
               [] \<Rightarrow> None
             | c' # r \<Rightarrow> if c' = 0x7D then Some (JObj [], r) else parse_members n cs [])
          else if c = 0x5B then
            (case skip_ws cs of
               [] \<Rightarrow> None
             | c' # r \<Rightarrow> if c' = 0x5D then Some (JArr [], r) else parse_elements n cs [])
          else if c = 0x22 then
            (case parse_string cs of None \<Rightarrow> None | Some (str, r) \<Rightarrow> Some (JStr str, r))
          else if starts_with (c # cs) (js ''true'') then Some (JBool True, drop 4 (c # cs))
          else if starts_with (c # cs) (js ''false'') then Some (JBool False, drop 5 (c # cs))
          else if starts_with (c # cs) (js ''null'') then Some (JNull, drop 4 (c # cs))
          else
            (case parse_number (c # cs) of
               None \<Rightarrow> None
             | Some (x, r) \<Rightarrow> Some (JNum x, r)))"
| "parse_elements 0 s acc = None"
| "parse_elements (Suc n) s acc =
     (case parse_value n s of
        None \<Rightarrow> None
      | Some (v, r) \<Rightarrow>
          (case skip_ws r of
             [] \<Rightarrow> None
           | c # r' \<Rightarrow>
               if c = 0x2C then parse_elements n r' (acc @ [v])
               else if c = 0x5D then Some (JArr (acc @ [v]), r')
               else None))"
| "parse_members 0 s acc = None"
| "parse_members (Suc n) s acc =
     (case skip_ws s of
        [] \<Rightarrow> None
      | q # r0 \<Rightarrow>
          if q \<noteq> 0x22 then None
          else
            (case parse_string r0 of
               None \<Rightarrow> None
             | Some (k, r1) \<Rightarrow>
                 (case skip_ws r1 of
                    [] \<Rightarrow> None
                  | colon # r2 \<Rightarrow>
                      if colon \<noteq> 0x3A then None
                      else
                        (case parse_value n r2 of
                           None \<Rightarrow> None
                         | Some (v, r3) \<Rightarrow>
                             (case skip_ws r3 of
                                [] \<Rightarrow> None
                              | c # r4 \<Rightarrow>
                                  if c = 0x2C then parse_members n r4 (add_member acc k v)
                                  else if c = 0x7D then Some (JObj (add_member acc k v), r4)
                                  else None)))))"

fun fuel_of :: "jsstring \<Rightarrow> nat" where
  "fuel_of [] = Suc (Suc 0)"
| "fuel_of (c # cs) = Suc (Suc (fuel_of cs))"

definition ref_json_parse :: "jsstring \<Rightarrow> json option" where
  "ref_json_parse s =
     (case parse_value (fuel_of s) s of
        None \<Rightarrow> None
      | Some (v, r) \<Rightarrow> if skip_ws r = [] then Some v else None)"

text \<open>The decimal digits of a natural number, and of an integer.\<close>

fun nat_digits :: "nat \<Rightarrow> jsstring" where
  "nat_digits n =
     (if n < 10 then [of_nat (0x30 + n)]
      else nat_digits (n div 10) @ [of_nat (0x30 + n mod 10)])"

declare nat_digits.simps [simp del]

definition int_to_string :: "int \<Rightarrow> jsstring" where
  "int_to_string i = (if i < 0 then 0x2D # nat_digits (nat (- i)) else nat_digits (nat i))"

definition ref_number_to_string :: "rat \<Rightarrow> jsstring" where
  "ref_number_to_string x = int_to_string \<lfloor>x\<rfloor>"

definition ref_round_to_string :: "jsval \<Rightarrow> jsstring" where
  "ref_round_to_string v =
     (case v of
        Val (JNum x) \<Rightarrow> int_to_string \<lfloor>x + 1 / 2\<rfloor>
      | Val JNull \<Rightarrow> js ''0''
      | Val (JBool b) \<Rightarrow> (if b then js ''1'' else js ''0'')
      | _ \<Rightarrow> js ''NaN'')"

definition hex_digit :: "nat \<Rightarrow> jschar" where
  "hex_digit n = (if n < 10 then of_nat (0x30 + n) else of_nat (0x61 + (n - 10)))"

definition quote_char :: "jschar \<Rightarrow> jsstring" where
  "quote_char c =
     (if c = 0x22 then [0x5C, 0x22]
      else if c = 0x5C then [0x5C, 0x5C]
      else if c = 0x08 then [0x5C, 0x62]
      else if c = 0x0C then [0x5C, 0x66]
      else if c = 0x0A then [0x5C, 0x6E]
      else if c = 0x0D then [0x5C, 0x72]
      else if c = 0x09 then [0x5C, 0x74]
      else if c < 0x20 then
        [0x5C, 0x75, 0x30, 0x30, hex_digit (unat c div 16), hex_digit (unat c mod 16)]
      else [c])"

definition quote :: "jsstring \<Rightarrow> jsstring" where
  "quote s = [0x22] @ concat (map quote_char s) @ [0x22]"

fun ref_json_stringify :: "json \<Rightarrow> jsstring" where
  "ref_json_stringify JNull = js ''null''"
| "ref_json_stringify (JBool b) = (if b then js ''true'' else js ''false'')"
| "ref_json_stringify (JNum x) = ref_number_to_string x"
| "ref_json_stringify (JStr s) = quote s"
| "ref_json_stringify (JArr xs) =
     [0x5B] @ join (js '','') (map ref_json_stringify xs) @ [0x5D]"
| "ref_json_stringify (JObj kvs) =
     [0x7B] @
     join (js '','') (map (\<lambda>kv. quote (fst kv) @ [0x3A] @ ref_json_stringify (snd kv)) kvs) @
     [0x7D]"

definition ref_platform :: platform where
  "ref_platform =
     \<lparr>json_parse = ref_json_parse,
      json_stringify = ref_json_stringify,
      number_to_string = ref_number_to_string,
      round_to_string = ref_round_to_string,
      type_error_message = js ''Cannot read properties of null''\<rparr>"


section \<open>Auxiliary notions\<close>

text \<open>The event \<^verbatim>\<open>{ type, data }\<close> as the server sends it, and its line on the wire.\<close>

definition sse_event :: "string \<Rightarrow> jsstring \<Rightarrow> json" where
  "sse_event kind payload = JObj [(js ''type'', JStr (js kind)), (js ''data'', JStr payload)]"

definition sse_line :: "string \<Rightarrow> jsstring \<Rightarrow> jsstring" where
  "sse_line kind payload = js ''data: '' @ ref_json_stringify (sse_event kind payload) @ [nl]"

text \<open>The UTF-8 bytes of a text of ASCII characters.\<close>

definition ascii_bytes :: "jsstring \<Rightarrow> byte list" where
  "ascii_bytes s = map ucast s"

text \<open>The framer state after the last chunk, and a turn with its framer state replaced.\<close>

fun framer_final :: "framer_state \<Rightarrow> byte list list \<Rightarrow> framer_state" where
  "framer_final fs [] = fs"
| "framer_final fs (chunk # chunks) = framer_final (fst (read_lines fs chunk)) chunks"

definition with_framer :: "framer_state \<Rightarrow> chat_state \<times> turn \<Rightarrow> chat_state \<times> turn" where
  "with_framer fs s = (fst s, (snd s)\<lparr>buffer := snd fs, decoder := fst fs\<rparr>)"

text \<open>The fields of the view that no event of the stream writes.\<close>

definition untouched :: "chat_state \<Rightarrow> chat_state \<Rightarrow> bool" where
  "untouched st st' \<longleftrightarrow>
     sessionId st' = sessionId st \<and> messages st' = messages st \<and>
     isStreaming st' = isStreaming st \<and> mode st' = mode st \<and>
     currentModel st' = currentModel st \<and> abortControllerRef st' = abortControllerRef st \<and>
     streamingSessionId st' = streamingSessionId st \<and>
     chat_requests st' = chat_requests st \<and> permission_posts st' = permission_posts st"

text \<open>The user message and the request that \<^verbatim>\<open>sendMessage\<close> creates.\<close>

definition user_message :: "chat_state \<Rightarrow> jsstring \<Rightarrow> message" where
  "user_message st content =
     \<lparr>m_id_prefix = js ''temp-'', m_session_id = sessionId st, m_role = User,
      m_content = content, m_token_usage = None\<rparr>"

definition chat_request :: "render \<Rightarrow> chat_state \<Rightarrow> jsstring \<Rightarrow> request" where
  "chat_request rn st content =
     \<lparr>req_session_id = sessionId st, req_content = content,
      req_mode = r_mode rn, req_model = r_currentModel rn\<rparr>"

text \<open>The assistant message committed at the end of a turn.\<close>

definition assistant_message :: "chat_state \<Rightarrow> jsstring \<Rightarrow> jsstring option \<Rightarrow> message" where
  "assistant_message st content usage =
     \<lparr>m_id_prefix = js ''temp-assistant-'', m_session_id = sessionId st, m_role = Assistant,
      m_content = content, m_token_usage = usage\<rparr>"

text \<open>
  The events and frames at which the view is torn down: a \<^verbatim>\<open>tool_use\<close> or
  \<^verbatim>\<open>tool_result\<close> event whose payload parses to \<^verbatim>\<open>null\<close>.
\<close>

definition tears_view :: "platform \<Rightarrow> json \<Rightarrow> bool" where
  "tears_view P event \<longleftrightarrow>
     (is_type (field event ''type'') ''tool_use'' \<or>
      is_type (field event ''type'') ''tool_result'') \<and>
     json_parse P (js_String P (field event ''data'')) = Some JNull"

definition frame_tears :: "platform \<Rightarrow> jsstring \<Rightarrow> bool" where
  "frame_tears P line \<longleftrightarrow>
     is_frame line \<and>
     (case json_parse P (slice_from 6 line) of None \<Rightarrow> False | Some event \<Rightarrow> tears_view P event)"

text \<open>The state in which a turn leaves the per-turn fields and the permission gate.\<close>

definition turn_reset :: "chat_state \<Rightarrow> bool" where
  "turn_reset st \<longleftrightarrow>
     \<not> isStreaming st \<and> streamingContent st = [] \<and> accumulatedRef st = [] \<and>
     toolUses st = [] \<and> toolResults st = [] \<and> streamingToolOutput st = [] \<and>
     statusText st = Undefined \<and> pendingPermission st = JNull \<and>
     permissionResolved st = None \<and> pendingApprovalSessionId st = [] \<and>
     streamingSessionId st = [] \<and> \<not> abortControllerRef st"


section \<open>Properties of the line framer\<close>

lemma decode_append:
  "decode d (xs @ ys) =
     (case decode d xs of (d1, o1) \<Rightarrow> (case decode d1 ys of (d2, o2) \<Rightarrow> (d2, o1 @ o2)))"
  by (induction xs arbitrary: d) (auto split: prod.splits)

lemma split_nl_nonempty: "split_nl t \<noteq> []"
  by (induction t) (auto split: list.splits)

lemma split_nl_append:
  "split_nl (a @ b) = butlast (split_nl a) @ split_nl (last (split_nl a) @ b)"
proof (induction a)
  case Nil
  show ?case by simp
next
  case (Cons c a)
  show ?case
  proof (cases "c = nl")
    case True
    with Cons show ?thesis by (simp add: split_nl_nonempty)
  next
    case False
    obtain l ls where s: "split_nl a = l # ls"
      using split_nl_nonempty [of a] by (cases "split_nl a") auto
    show ?thesis
    proof (cases ls)
      case Nil
      with Cons s False show ?thesis by simp
    next
      case (Cons l' ls')
      with Cons.IH s False show ?thesis by (simp split: list.splits)
    qed
  qed
qed

lemma last_split_nl_no_nl: "nl \<notin> set (last (split_nl t))"
  by (induction t) (auto simp: split_nl_nonempty split: list.splits)

lemma split_nl_no_nl: "nl \<notin> set t \<Longrightarrow> split_nl t = [t]"
  by (induction t) auto

lemma complete_lines_append:
  "complete_lines (a @ b) = complete_lines a @ complete_lines (last (split_nl a) @ b)"
  unfolding complete_lines_def
  by (subst split_nl_append) (simp add: butlast_append split_nl_nonempty)

lemma split_nl_rebuild:
  "concat (map (\<lambda>l. l @ [nl]) (butlast (split_nl t))) @ last (split_nl t) = t"
  by (induction t) (auto simp: split_nl_nonempty split: list.splits)

lemma framer_complete_lines:
  "nl \<notin> set held \<Longrightarrow>
   framer (d, held) chunks =
     filter is_frame (complete_lines (held @ snd (decode d (concat chunks))))"
proof (induction chunks arbitrary: d held)
  case Nil
  then show ?case by (simp add: complete_lines_def split_nl_no_nl)
next
  case (Cons chunk chunks)
  obtain d1 decoded where dc: "decode d chunk = (d1, decoded)" by (cases "decode d chunk")
  obtain d2 rest where dr: "decode d1 (concat chunks) = (d2, rest)"
    by (cases "decode d1 (concat chunks)")
  let ?held = "last (split_nl (held @ decoded))"
  have ih: "framer (d1, ?held) chunks = filter is_frame (complete_lines (?held @ rest))"
    using Cons.IH [of ?held d1] dr by (simp add: last_split_nl_no_nl)
  have "complete_lines ((held @ decoded) @ rest) =
        complete_lines (held @ decoded) @ complete_lines (?held @ rest)"
    by (rule complete_lines_append)
  with ih dc dr show ?case
    by (simp add: read_lines_def decode_append split_nl_nonempty complete_lines_def Let_def)
qed

lemma complete_line_terminated:
  assumes "l \<in> set (complete_lines t)"
  shows "\<exists>pre post. t = pre @ l @ nl # post"
proof -
  from assms obtain ls1 ls2 where "butlast (split_nl t) = ls1 @ l # ls2"
    unfolding complete_lines_def by (auto dest: split_list)
  with split_nl_rebuild [of t]
  have "t = concat (map (\<lambda>l. l @ [nl]) ls1) @ l @
            nl # (concat (map (\<lambda>l. l @ [nl]) ls2) @ last (split_nl t))"
    by simp
  then show ?thesis by blast
qed

text \<open>
  Claim C2. However the byte sequence of the response is cut into chunks, also inside a
  frame or inside a multi-byte character, the read loop hands the same frames, in the
  same order, to the body of its \<^verbatim>\<open>for\<close> loop: they are the lines of the decoded text
  that begin with \<^verbatim>\<open>data: \<close> and are closed by a line feed. The piece behind the last
  line feed is held back in \<^verbatim>\<open>buffer\<close>, so every frame handed on is followed by its
  line feed in the text decoded so far.
\<close>

theorem framer_segmentation_invariant:
  assumes "concat chunks = concat chunks'"
  shows "framer (new_decoder, []) chunks = framer (new_decoder, []) chunks' \<and>
         framer (new_decoder, []) chunks =
           filter is_frame (complete_lines (snd (decode new_decoder (concat chunks)))) \<and>
         (\<forall>l \<in> set (framer (new_decoder, []) chunks).
            \<exists>pre post. snd (decode new_decoder (concat chunks)) = pre @ l @ nl # post)"
  using assms framer_complete_lines [of "[]" new_decoder]
  by (auto dest: complete_line_terminated)

theorem framer_segmentation_invariant_witness:
  "framer (new_decoder, [])
     [ascii ''data: a'' @ [0xC3], [0xA9, 0x0A] @ ascii ''dat'',
      ascii ''a: b'' @ [0x0A] @ ascii ''data: x'']
   = framer (new_decoder, [])
     [ascii ''da'',
      ascii ''ta: a'' @ [0xC3, 0xA9, 0x0A] @ ascii ''data: b'' @ [0x0A] @ ascii ''data: x'', []]
   \<and> framer (new_decoder, [])
     [ascii ''data: a'' @ [0xC3], [0xA9, 0x0A] @ ascii ''dat'',
      ascii ''a: b'' @ [0x0A] @ ascii ''data: x'']
   = [js ''data: a'' @ [0xE9], js ''data: b'']"
proof -
  have c: "concat [ascii ''data: a'' @ [0xC3], [0xA9, 0x0A] @ ascii ''dat'',
                   ascii ''a: b'' @ [0x0A] @ ascii ''data: x'']
    = concat [ascii ''da'',
        ascii ''ta: a'' @ [0xC3, 0xA9, 0x0A] @ ascii ''data: b'' @ [0x0A] @ ascii ''data: x'', []]"
    by (simp add: ascii_def)
  from framer_segmentation_invariant [OF c]
  have "framer (new_decoder, [])
     [ascii ''data: a'' @ [0xC3], [0xA9, 0x0A] @ ascii ''dat'',
      ascii ''a: b'' @ [0x0A] @ ascii ''data: x'']
   = framer (new_decoder, [])
     [ascii ''da'',
      ascii ''ta: a'' @ [0xC3, 0xA9, 0x0A] @ ascii ''data: b'' @ [0x0A] @ ascii ''data: x'', []]"
    by (rule conjunct1)
  moreover have "framer (new_decoder, [])
     [ascii ''data: a'' @ [0xC3], [0xA9, 0x0A] @ ascii ''dat'',
      ascii ''a: b'' @ [0x0A] @ ascii ''data: x'']
   = [js ''data: a'' @ [0xE9], js ''data: b'']"
    by (simp add: read_lines_def is_frame_def js_def ascii_def nl_def utf8_step_def
        utf8_handler_def utf8_lead_def utf8_reset_def new_decoder_def utf16_units_def)
  ultimately show ?thesis by (rule conjI)
qed


section \<open>What the events leave alone\<close>

lemma untouched_refl [simp]: "untouched st st"
  by (simp add: untouched_def)

lemma untouched_trans: "untouched a b \<Longrightarrow> untouched b c \<Longrightarrow> untouched a c"
  by (simp add: untouched_def)

lemma on_text_untouched: "untouched (fst s) (fst (on_text P data s))"
  by (cases s) (simp add: on_text_def untouched_def Let_def)

lemma on_error_untouched: "untouched (fst s) (fst (on_error P data s))"
  by (cases s) (simp add: on_error_def untouched_def Let_def)

lemma on_result_untouched: "untouched (fst s) (fst (on_result P data s))"
  by (cases s) (simp add: on_result_def untouched_def)

lemma on_tool_use_untouched: "untouched st (on_tool_use P data st)"
  by (simp add: on_tool_use_def untouched_def Let_def split: option.splits)

lemma on_tool_result_untouched: "untouched st (on_tool_result P data st)"
  by (simp add: on_tool_result_def untouched_def Let_def split: option.splits)

lemma on_tool_output_untouched: "untouched st (on_tool_output P data st)"
  by (simp add: on_tool_output_def untouched_def split: option.splits)

lemma on_status_untouched: "untouched st (on_status P data st)"
  by (simp add: on_status_def untouched_def split: option.splits)

lemma on_permission_request_untouched: "untouched st (on_permission_request P data st)"
  by (simp add: on_permission_request_def untouched_def split: option.splits)

lemma fold_event_cases:
  "fold_event P event s = s \<or>
   fold_event P event s = on_text P (field event ''data'') s \<or>
   fold_event P event s = (on_tool_use P (field event ''data'') (fst s), snd s) \<or>
   fold_event P event s = (on_tool_result P (field event ''data'') (fst s), snd s) \<or>
   fold_event P event s = (on_tool_output P (field event ''data'') (fst s), snd s) \<or>
   fold_event P event s = (on_status P (field event ''data'') (fst s), snd s) \<or>
   fold_event P event s = on_result P (field event ''data'') s \<or>
   fold_event P event s = (on_permission_request P (field event ''data'') (fst s), snd s) \<or>
   fold_event P event s = on_error P (field event ''data'') s"
  by (cases "get_prop event (js ''type'')") (simp_all add: fold_event_def handle_event_def Let_def)

lemma fold_event_untouched: "untouched (fst s) (fst (fold_event P event s))"
  using fold_event_cases [of P event s]
  by (elim disjE)
     (simp_all add: on_text_untouched on_error_untouched
      on_result_untouched on_tool_use_untouched on_tool_result_untouched
      on_tool_output_untouched on_status_untouched on_permission_request_untouched)

lemma handle_line_untouched: "untouched (fst s) (fst (handle_line P line s))"
  by (simp add: handle_line_def fold_event_untouched split: option.splits)

lemma fold_handle_line_untouched: "untouched (fst s) (fst (fold (handle_line P) lines s))"
proof (induction lines arbitrary: s)
  case Nil
  show ?case by simp
next
  case (Cons l ls)
  show ?case
    using handle_line_untouched [of s P l] Cons [of "handle_line P l s"]
    by (auto intro: untouched_trans)
qed

section \<open>The read loop folds the frames\<close>

lemma with_framer_with_framer [simp]: "with_framer fs (with_framer fs' s) = with_framer fs s"
  by (simp add: with_framer_def)

lemma with_framer_own [simp]: "with_framer (decoder (snd s), buffer (snd s)) s = s"
  by (cases s) (simp add: with_framer_def)

lemma fst_with_framer [simp]: "fst (with_framer fs s) = fst s"
  by (simp add: with_framer_def)

lemma snd_with_framer [simp]:
  "decoder (snd (with_framer fs s)) = fst fs" "buffer (snd (with_framer fs s)) = snd fs"
  "accumulated (snd (with_framer fs s)) = accumulated (snd s)"
  "tokenUsage (snd (with_framer fs s)) = tokenUsage (snd s)"
  by (simp_all add: with_framer_def)

lemma fold_event_with_framer:
  "fold_event P event (with_framer fs s) = with_framer fs (fold_event P event s)"
  by (cases s)
     (simp add: fold_event_def handle_event_def with_framer_def Let_def on_text_def on_error_def
       on_result_def split: option.splits jsval.splits)

lemma handle_line_with_framer:
  "handle_line P line (with_framer fs s) = with_framer fs (handle_line P line s)"
  by (simp add: handle_line_def fold_event_with_framer split: option.splits)

lemma fold_handle_line_with_framer:
  "fold (handle_line P) lines (with_framer fs s) = with_framer fs (fold (handle_line P) lines s)"
  by (induction lines arbitrary: s) (simp_all add: handle_line_with_framer)

lemma fold_handle_line_filter:
  "fold (handle_line P) (filter is_frame lines) s = fold (handle_line P) lines s"
  by (induction lines arbitrary: s) (simp_all add: handle_line_def)

lemma read_round_frames:
  "read_round P chunk s =
     with_framer (fst (read_lines (decoder (snd s), buffer (snd s)) chunk))
       (fold (handle_line P)
          (filter is_frame (snd (read_lines (decoder (snd s), buffer (snd s)) chunk))) s)"
proof -
  obtain st t where s: "s = (st, t)" by (cases s)
  obtain d' b' lines where r: "read_lines (decoder t, buffer t) chunk = ((d', b'), lines)"
    by (cases "read_lines (decoder t, buffer t) chunk") auto
  have "(st, t\<lparr>buffer := b', decoder := d'\<rparr>) = with_framer (d', b') (st, t)"
    by (simp add: with_framer_def)
  with s r show ?thesis
    by (simp add: read_round_def fold_handle_line_with_framer fold_handle_line_filter)
qed

lemma read_loop_frames:
  "fold (read_round P) chunks s =
     with_framer (framer_final (decoder (snd s), buffer (snd s)) chunks)
       (fold (handle_line P) (framer (decoder (snd s), buffer (snd s)) chunks) s)"
proof (induction chunks arbitrary: s)
  case Nil
  show ?case by simp
next
  case (Cons chunk chunks)
  let ?fs = "(decoder (snd s), buffer (snd s))"
  obtain fs1 lines where r: "read_lines ?fs chunk = (fs1, lines)"
    by (cases "read_lines ?fs chunk")
  let ?s1 = "fold (handle_line P) (filter is_frame lines) s"
  have step: "read_round P chunk s = with_framer fs1 ?s1"
    using read_round_frames [of P chunk s] r by simp
  have "fold (read_round P) (chunk # chunks) s = fold (read_round P) chunks (with_framer fs1 ?s1)"
    using step by simp
  also have "\<dots> = with_framer (framer_final fs1 chunks)
       (fold (handle_line P) (framer fs1 chunks) (with_framer fs1 ?s1))"
    using Cons [of "with_framer fs1 ?s1"] by (cases fs1) simp
  also have "\<dots> = with_framer (framer_final fs1 chunks)
       (fold (handle_line P) (framer fs1 chunks) ?s1)"
    by (simp add: fold_handle_line_with_framer)
  finally show ?case using r by simp
qed

lemma end_turn_with_framer: "end_turn P ending (with_framer fs s) = end_turn P ending s"
  by (cases s) (simp add: end_turn_def with_framer_def complete_turn_def catch_turn_def
      split: option.splits thrown.splits)

lemma sendMessage_frames:
  "sendMessage P rn content (Body chunks ending) st =
     (if r_isStreaming rn then st
      else end_turn P ending
             (fold (handle_line P) (framer (new_decoder, []) chunks) (begin_turn rn content st)))"
proof -
  have "snd (begin_turn rn content st) =
          \<lparr>accumulated = [], tokenUsage = JNull, buffer = [], decoder = new_decoder\<rparr>"
    by (simp add: begin_turn_def)
  then show ?thesis
    using read_loop_frames [of P chunks "begin_turn rn content st"]
    by (simp add: sendMessage_def Let_def end_turn_with_framer)
qed


section \<open>Evaluation\<close>

text \<open>The definitions that a run of the model on a concrete input unfolds.\<close>

lemmas eval_defs = js_def ascii_def nl_def slice_from_def slice_last_def js_whitespace_def trim_def
  new_decoder_def utf8_reset_def utf8_lead_def utf8_handler_def utf16_units_def utf8_step_def
  read_lines_def is_frame_def js_or_def strict_eq_def js_String_def is_string_def field_def
  on_text_def on_tool_use_def on_tool_result_def progress_heartbeat_def append_tool_output_def
  on_tool_output_def on_status_def on_result_def on_permission_request_def on_error_def
  is_type_def handle_event_def fold_event_def handle_line_def read_round_def begin_turn_def
  complete_turn_def catch_turn_def cleanup_def end_turn_def not_ok_error_def sendMessage_def
  stopStreaming_def cancel_turn_def permission_body_def permission_decide_def
  permission_settled_def handlePermissionResponse_def fire_timer_def initial_state_def
  json_ws_def skip_ws_def is_digit_def hex_value_def hex4_def unescape_def digits_value_def
  parse_exponent_def parse_fraction_def parse_number_def ref_json_parse_def int_to_string_def
  ref_number_to_string_def ref_round_to_string_def hex_digit_def quote_char_def quote_def
  ref_platform_def nat_digits.simps sse_event_def sse_line_def ascii_bytes_def
  user_message_def chat_request_def assistant_message_def turn_reset_def render_of_def
  tears_view_def frame_tears_def Let_def

section \<open>How a turn ends\<close>

lemma fold_read_round_untouched: "untouched (fst s) (fst (fold (read_round P) chunks s))"
  by (simp add: read_loop_frames fold_handle_line_untouched)

lemma end_turn_reset: "turn_reset (end_turn P ending s)"
  by (simp add: end_turn_def cleanup_def turn_reset_def)

lemma end_turn_requests: "chat_requests (end_turn P ending s) = chat_requests (fst s)"
  by (cases s)
     (simp add: end_turn_def cleanup_def complete_turn_def catch_turn_def Let_def
       split: option.splits thrown.splits)

lemma end_turn_fixed:
  "sessionId (end_turn P ending s) = sessionId (fst s) \<and>
   mode (end_turn P ending s) = mode (fst s) \<and>
   currentModel (end_turn P ending s) = currentModel (fst s) \<and>
   timers (end_turn P ending s) = timers (fst s)"
  by (cases s)
     (simp add: end_turn_def cleanup_def complete_turn_def catch_turn_def Let_def
       split: option.splits thrown.splits)

lemma end_turn_messages: "\<exists>rest. messages (end_turn P ending s) = messages (fst s) @ rest"
  by (cases s)
     (simp add: end_turn_def cleanup_def complete_turn_def catch_turn_def Let_def
       split: option.splits thrown.splits)

lemma sendMessage_ends:
  assumes "\<not> r_isStreaming rn"
  shows "\<exists>ending s. sendMessage P rn content resp st = end_turn P ending s \<and>
           untouched (fst (begin_turn rn content st)) (fst s)"
proof (cases resp)
  case (Body chunks ending)
  with assms have "sendMessage P rn content resp st =
      end_turn P ending (fold (read_round P) chunks (begin_turn rn content st))"
    by (simp add: sendMessage_def Let_def)
  then show ?thesis using fold_read_round_untouched by blast
next
  case (FetchRejected e)
  with assms have "sendMessage P rn content resp st =
      end_turn P (Some e) (begin_turn rn content st)"
    by (simp add: sendMessage_def Let_def)
  then show ?thesis using untouched_refl by blast
next
  case (NotOk r)
  with assms have "sendMessage P rn content resp st =
      end_turn P (Some (not_ok_error P r)) (begin_turn rn content st)"
    by (simp add: sendMessage_def Let_def)
  then show ?thesis using untouched_refl by blast
next
  case NoBody
  with assms have "sendMessage P rn content resp st =
      end_turn P (Some (ErrorObj (js ''No response stream''))) (begin_turn rn content st)"
    by (simp add: sendMessage_def Let_def)
  then show ?thesis using untouched_refl by blast
qed

lemma sendMessage_accepted:
  assumes "\<not> r_isStreaming rn"
  shows "turn_reset (sendMessage P rn content resp st) \<and>
         chat_requests (sendMessage P rn content resp st) =
           chat_requests st @ [chat_request rn st content] \<and>
         (\<exists>rest. messages (sendMessage P rn content resp st) =
            messages st @ user_message st content # rest)"
proof -
  from sendMessage_ends [OF assms] obtain ending s where
    e: "sendMessage P rn content resp st = end_turn P ending s" and
    u: "untouched (fst (begin_turn rn content st)) (fst s)" by blast
  from u have r: "chat_requests (fst s) = chat_requests st @ [chat_request rn st content]"
    and m: "messages (fst s) = messages st @ [user_message st content]"
    by (simp_all add: untouched_def begin_turn_def chat_request_def user_message_def)
  from end_turn_messages [of P ending s] m obtain rest where
    "messages (end_turn P ending s) = messages st @ user_message st content # rest" by auto
  with e r show ?thesis by (simp add: end_turn_reset end_turn_requests)
qed

lemma render_of_reset: "turn_reset st \<Longrightarrow> \<not> r_isStreaming (render_of st)"
  by (simp add: turn_reset_def render_of_def)


section \<open>When the view is torn down\<close>

lemma get_prop_None: "get_prop v k = None \<longleftrightarrow> v = JNull"
  by (cases v) simp_all

lemma on_tool_use_torn_down:
  "torn_down (on_tool_use P data st) \<longleftrightarrow>
     torn_down st \<or> json_parse P (js_String P data) = Some JNull"
  by (auto simp: on_tool_use_def Let_def get_prop_None split: option.splits)

lemma on_tool_result_torn_down:
  "torn_down (on_tool_result P data st) \<longleftrightarrow>
     torn_down st \<or> json_parse P (js_String P data) = Some JNull"
  by (auto simp: on_tool_result_def Let_def get_prop_None split: option.splits)

lemma is_type_distinct:
  "is_type ty ''text'' \<Longrightarrow> \<not> is_type ty ''tool_use'' \<and> \<not> is_type ty ''tool_result''"
  "is_type ty ''tool_use'' \<Longrightarrow> \<not> is_type ty ''tool_result''"
  "is_type ty ''tool_output'' \<Longrightarrow> \<not> is_type ty ''tool_use'' \<and> \<not> is_type ty ''tool_result''"
  "is_type ty ''status'' \<Longrightarrow> \<not> is_type ty ''tool_use'' \<and> \<not> is_type ty ''tool_result''"
  "is_type ty ''result'' \<Longrightarrow> \<not> is_type ty ''tool_use'' \<and> \<not> is_type ty ''tool_result''"
  "is_type ty ''permission_request'' \<Longrightarrow>
     \<not> is_type ty ''tool_use'' \<and> \<not> is_type ty ''tool_result''"
  "is_type ty ''error'' \<Longrightarrow> \<not> is_type ty ''tool_use'' \<and> \<not> is_type ty ''tool_result''"
  by (auto simp: is_type_def strict_eq_def js_def)

lemma fold_event_torn_down:
  "torn_down (fst (fold_event P event s)) \<longleftrightarrow> torn_down (fst s) \<or> tears_view P event"
proof (cases "get_prop event (js ''type'')")
  case None
  then show ?thesis
    by (simp add: fold_event_def handle_event_def tears_view_def field_def is_type_def
        strict_eq_def)
next
  case (Some ty)
  then have f: "field event ''type'' = ty" by (simp add: field_def)
  obtain st t where s: "s = (st, t)" by (cases s)
  show ?thesis
    unfolding fold_event_def handle_event_def Let_def tears_view_def f Some s
    by (auto simp: on_text_def on_error_def on_result_def on_tool_use_torn_down
        on_tool_result_torn_down on_tool_output_def on_status_def on_permission_request_def
        Let_def dest: is_type_distinct split: option.splits)
qed

lemma handle_line_torn_down:
  "torn_down (fst (handle_line P line s)) \<longleftrightarrow> torn_down (fst s) \<or> frame_tears P line"
  by (simp add: handle_line_def frame_tears_def fold_event_torn_down split: option.splits)

lemma fold_handle_line_torn_down:
  "torn_down (fst (fold (handle_line P) lines s)) \<longleftrightarrow>
     torn_down (fst s) \<or> list_ex (frame_tears P) lines"
  by (induction lines arbitrary: s) (auto simp: handle_line_torn_down)

lemma end_turn_torn_down: "torn_down (end_turn P ending s) = torn_down (fst s)"
  by (cases s)
     (simp add: end_turn_def cleanup_def complete_turn_def catch_turn_def Let_def
       split: option.splits thrown.splits)

lemma sendMessage_torn_down:
  "\<not> r_isStreaming rn \<Longrightarrow>
   torn_down (sendMessage P rn content (Body chunks ending) st) \<longleftrightarrow>
     torn_down st \<or> list_ex (frame_tears P) (framer (new_decoder, []) chunks)"
  by (simp add: sendMessage_frames end_turn_torn_down fold_handle_line_torn_down begin_turn_def)


section \<open>One live turn\<close>





section \<open>Malformed frames\<close>

text \<open>
  Claim C3. A frame whose text \<^verbatim>\<open>JSON.parse\<close> rejects is dropped and nothing else
  happens: the state is the one before the frame, the frames before and after it are
  folded as if it were not there, and a turn whose stream carries it ends exactly like
  the turn whose stream does not.
\<close>

theorem malformed_frame_dropped:
  assumes "json_parse P (slice_from 6 bad) = None"
  shows "handle_line P bad s = s \<and>
         fold (handle_line P) (pre @ bad # post) s = fold (handle_line P) (pre @ post) s \<and>
         (framer (new_decoder, []) chunks = pre @ bad # post \<and>
          framer (new_decoder, []) chunks' = pre @ post \<longrightarrow>
            sendMessage P rn content (Body chunks ending) st =
            sendMessage P rn content (Body chunks' ending) st)"
proof -
  have h: "handle_line P bad s' = s'" for s'
    using assms by (simp add: handle_line_def)
  then have f: "fold (handle_line P) (pre @ bad # post) s' = fold (handle_line P) (pre @ post) s'"
    for s' by simp
  show ?thesis using h f by (simp add: sendMessage_frames)
qed

text \<open>
  The scenario of C3: \<^verbatim>\<open>data: {not json\<close> between two \<^verbatim>\<open>text\<close> frames; the turn
  completes and commits \<^verbatim>\<open>Hello world\<close>.
\<close>

theorem malformed_frame_dropped_witness:
  "json_parse ref_platform (slice_from 6 (js ''data: {not json'')) = None \<and>
   sendMessage ref_platform (render_of (initial_state (js ''s''))) (js ''hi'')
     (Body [ascii_bytes (sse_line ''text'' (js ''Hello'')) @ ascii ''data: {not json'' @ [0x0A] @
            ascii_bytes (sse_line ''text'' (js '' world''))] None)
     (initial_state (js ''s'')) =
   sendMessage ref_platform (render_of (initial_state (js ''s''))) (js ''hi'')
     (Body [ascii_bytes (sse_line ''text'' (js ''Hello'')) @
            ascii_bytes (sse_line ''text'' (js '' world''))] None)
     (initial_state (js ''s'')) \<and>
   map m_content (messages (sendMessage ref_platform (render_of (initial_state (js ''s''))) (js ''hi'')
     (Body [ascii_bytes (sse_line ''text'' (js ''Hello'')) @ ascii ''data: {not json'' @ [0x0A] @
            ascii_bytes (sse_line ''text'' (js '' world''))] None)
     (initial_state (js ''s'')))) = [js ''hi'', js ''Hello world'']"
proof -
  let ?l1 = "butlast (sse_line ''text'' (js ''Hello''))"
  let ?l2 = "butlast (sse_line ''text'' (js '' world''))"
  have h: "json_parse ref_platform (slice_from 6 (js ''data: {not json'')) = None"
    by (simp add: eval_defs)
  have f1: "framer (new_decoder, [])
      [ascii_bytes (sse_line ''text'' (js ''Hello'')) @ ascii ''data: {not json'' @ [0x0A] @
       ascii_bytes (sse_line ''text'' (js '' world''))] = [?l1] @ js ''data: {not json'' # [?l2]"
    by (simp add: eval_defs)
  have f2: "framer (new_decoder, [])
      [ascii_bytes (sse_line ''text'' (js ''Hello'')) @
       ascii_bytes (sse_line ''text'' (js '' world''))] = [?l1] @ [?l2]"
    by (simp add: eval_defs)
  from malformed_frame_dropped [OF h, of _ "[?l1]" "[?l2]"] f1 f2
  have e: "sendMessage ref_platform (render_of (initial_state (js ''s''))) (js ''hi'')
     (Body [ascii_bytes (sse_line ''text'' (js ''Hello'')) @ ascii ''data: {not json'' @ [0x0A] @
            ascii_bytes (sse_line ''text'' (js '' world''))] None)
     (initial_state (js ''s'')) =
   sendMessage ref_platform (render_of (initial_state (js ''s''))) (js ''hi'')
     (Body [ascii_bytes (sse_line ''text'' (js ''Hello'')) @
            ascii_bytes (sse_line ''text'' (js '' world''))] None)
     (initial_state (js ''s''))"
    by blast
  have m: "map m_content (messages (sendMessage ref_platform (render_of (initial_state (js ''s''))) (js ''hi'')
     (Body [ascii_bytes (sse_line ''text'' (js ''Hello'')) @ ascii ''data: {not json'' @ [0x0A] @
            ascii_bytes (sse_line ''text'' (js '' world''))] None)
     (initial_state (js ''s'')))) = [js ''hi'', js ''Hello world'']"
    by (simp add: eval_defs)
  from h e m show ?thesis by blast
qed

section \<open>Repeated tool invocations\<close>

text \<open>
  Claim C4 says that a \<^verbatim>\<open>tool_use\<close> event whose id is already listed changes nothing,
  the live output included. In \<^verbatim>\<open>ChatView.tsx\<close> the call
  \<^verbatim>\<open>setStreamingToolOutput('')\<close>, commented \<^verbatim>\<open>Clear streaming output for new tool\<close>,
  comes before the search for the id: the list of invocations is left as it is, and the
  live output is cleared all the same.
\<close>

theorem duplicate_tool_use_clears_live_output:
  assumes "json_parse P (js_String P data) = Some toolData"
    and "get_prop toolData (js ''id'') = Some tid"
    and "list_ex (\<lambda>t. strict_eq (tu_id t) tid) (toolUses st)"
  shows "on_tool_use P data st = st\<lparr>streamingToolOutput := []\<rparr>"
  using assms by (simp add: on_tool_use_def Let_def)

theorem duplicate_tool_use_clears_live_output_witness:
  \<open>on_tool_use ref_platform (Val (JStr (js ''{"id":"1","name":"bash","input":{}}'')))
     ((initial_state (js ''s''))
        \<lparr>toolUses := [\<lparr>tu_id = Val (JStr (js ''1'')), tu_name = Val (JStr (js ''bash'')),
                       tu_input = Val (JObj [])\<rparr>],
         streamingToolOutput := js ''compiling''\<rparr>) =
   (initial_state (js ''s''))
        \<lparr>toolUses := [\<lparr>tu_id = Val (JStr (js ''1'')), tu_name = Val (JStr (js ''bash'')),
                       tu_input = Val (JObj [])\<rparr>],
         streamingToolOutput := []\<rparr>\<close>
proof -
  let ?st = "(initial_state (js ''s''))
        \<lparr>toolUses := [\<lparr>tu_id = Val (JStr (js ''1'')), tu_name = Val (JStr (js ''bash'')),
                       tu_input = Val (JObj [])\<rparr>],
         streamingToolOutput := js ''compiling''\<rparr>"
  have p: \<open>json_parse ref_platform
             (js_String ref_platform (Val (JStr (js ''{"id":"1","name":"bash","input":{}}'')))) =
           Some (JObj [(js ''id'', JStr (js ''1'')), (js ''name'', JStr (js ''bash'')),
                       (js ''input'', JObj [])])\<close>
    by (simp add: eval_defs)
  have g: "get_prop (JObj [(js ''id'', JStr (js ''1'')), (js ''name'', JStr (js ''bash'')),
                       (js ''input'', JObj [])]) (js ''id'') = Some (Val (JStr (js ''1'')))"
    by (simp add: eval_defs)
  have d: "list_ex (\<lambda>t. strict_eq (tu_id t) (Val (JStr (js ''1'')))) (toolUses ?st)"
    by (simp add: strict_eq_def)
  from duplicate_tool_use_clears_live_output [OF p g d] show ?thesis by simp
qed

section \<open>The bound on the live output\<close>

lemma slice_last_length: "length (slice_last k s) = min k (length s)"
  by (simp add: slice_last_def)

lemma append_tool_output_bound: "length (append_tool_output prev d) \<le> 5000"
  unfolding append_tool_output_def Let_def
  by (simp only: slice_last_length split: if_split) simp

lemma on_tool_output_bound:
  "length (streamingToolOutput st) \<le> 5000 \<Longrightarrow>
   length (streamingToolOutput (on_tool_output P data st)) \<le> 5000"
  by (simp add: on_tool_output_def append_tool_output_bound split: option.splits)

lemma fold_event_output_bound:
  assumes "length (streamingToolOutput (fst s)) \<le> 5000"
  shows "length (streamingToolOutput (fst (fold_event P event s))) \<le> 5000"
  using fold_event_cases [of P event s] assms
  by (elim disjE)
     (cases s; simp add: on_text_def on_error_def on_result_def on_tool_use_def
        on_tool_result_def on_status_def on_permission_request_def on_tool_output_bound Let_def
        split: option.splits)+

lemma fold_events_output_bound:
  "length (streamingToolOutput (fst s)) \<le> 5000 \<Longrightarrow>
   length (streamingToolOutput (fst (fold (fold_event P) events s))) \<le> 5000"
  by (induction events arbitrary: s) (simp_all add: fold_event_output_bound)

lemma handle_line_output_bound:
  "length (streamingToolOutput (fst s)) \<le> 5000 \<Longrightarrow>
   length (streamingToolOutput (fst (handle_line P line s))) \<le> 5000"
  by (simp add: handle_line_def fold_event_output_bound split: option.splits)

lemma fold_lines_output_bound:
  "length (streamingToolOutput (fst s)) \<le> 5000 \<Longrightarrow>
   length (streamingToolOutput (fst (fold (handle_line P) lines s))) \<le> 5000"
  by (induction lines arbitrary: s) (simp_all add: handle_line_output_bound)

text \<open>
  Claim C5. If the live output holds at most 5000 code units, it still does after any
  sequence of events and after any number of rounds of the read loop (it is empty when
  the view is mounted and after every turn). A \<^verbatim>\<open>tool_output\<close> payload that is no
  progress heartbeat is appended, behind a line feed when the output is not empty, and
  when the result is longer than 5000 code units exactly its last 5000 are kept.
\<close>

theorem live_output_bounded:
  "(length (streamingToolOutput (fst s)) \<le> 5000 \<longrightarrow>
      length (streamingToolOutput (fst (fold (fold_event P) events s))) \<le> 5000 \<and>
      length (streamingToolOutput (fst (fold (read_round P) chunks s))) \<le> 5000) \<and>
   (progress_heartbeat P data = None \<longrightarrow>
      streamingToolOutput (on_tool_output P data st) =
        (if 5000 < length (streamingToolOutput st @
                     (if streamingToolOutput st \<noteq> [] then [nl] else []) @ js_String P data)
         then drop (length (streamingToolOutput st @
                     (if streamingToolOutput st \<noteq> [] then [nl] else []) @ js_String P data) - 5000)
                (streamingToolOutput st @
                     (if streamingToolOutput st \<noteq> [] then [nl] else []) @ js_String P data)
         else streamingToolOutput st @
                     (if streamingToolOutput st \<noteq> [] then [nl] else []) @ js_String P data) \<and>
      (5000 < length (streamingToolOutput st @
                     (if streamingToolOutput st \<noteq> [] then [nl] else []) @ js_String P data) \<longrightarrow>
         length (streamingToolOutput (on_tool_output P data st)) = 5000))"
proof (intro conjI impI)
  assume "length (streamingToolOutput (fst s)) \<le> 5000"
  then show "length (streamingToolOutput (fst (fold (fold_event P) events s))) \<le> 5000"
    by (rule fold_events_output_bound)
next
  assume "length (streamingToolOutput (fst s)) \<le> 5000"
  then show "length (streamingToolOutput (fst (fold (read_round P) chunks s))) \<le> 5000"
    by (simp add: read_loop_frames fold_lines_output_bound)
next
  assume "progress_heartbeat P data = None"
  then show "streamingToolOutput (on_tool_output P data st) =
        (if 5000 < length (streamingToolOutput st @
                     (if streamingToolOutput st \<noteq> [] then [nl] else []) @ js_String P data)
         then drop (length (streamingToolOutput st @
                     (if streamingToolOutput st \<noteq> [] then [nl] else []) @ js_String P data) - 5000)
                (streamingToolOutput st @
                     (if streamingToolOutput st \<noteq> [] then [nl] else []) @ js_String P data)
         else streamingToolOutput st @
                     (if streamingToolOutput st \<noteq> [] then [nl] else []) @ js_String P data)"
    by (simp add: on_tool_output_def append_tool_output_def slice_last_def Let_def)
next
  assume "progress_heartbeat P data = None"
    and "5000 < length (streamingToolOutput st @
                     (if streamingToolOutput st \<noteq> [] then [nl] else []) @ js_String P data)"
  then show "length (streamingToolOutput (on_tool_output P data st)) = 5000"
    by (simp add: on_tool_output_def append_tool_output_def slice_last_def Let_def)
qed

theorem live_output_bounded_witness:
  "length (streamingToolOutput (fst
      ((initial_state (js ''s''))\<lparr>streamingToolOutput := replicate 4999 0x61\<rparr>,
       snd (begin_turn (render_of (initial_state (js ''s''))) (js ''hi'') (initial_state (js ''s'')))))) \<le> 5000 \<and>
   length (streamingToolOutput (fst (fold (fold_event ref_platform)
      [sse_event ''tool_output'' (js ''bcd''), sse_event ''tool_output'' (js ''efg'')]
      ((initial_state (js ''s''))\<lparr>streamingToolOutput := replicate 4999 0x61\<rparr>,
       snd (begin_turn (render_of (initial_state (js ''s''))) (js ''hi'') (initial_state (js ''s''))))))) \<le> 5000 \<and>
   progress_heartbeat ref_platform (Val (JStr (js ''bcd''))) = None \<and>
   streamingToolOutput (on_tool_output ref_platform (Val (JStr (js ''bcd'')))
      ((initial_state (js ''s''))\<lparr>streamingToolOutput := replicate 4999 0x61\<rparr>)) =
     replicate 4996 0x61 @ [nl] @ js ''bcd'' \<and>
   length (streamingToolOutput (on_tool_output ref_platform (Val (JStr (js ''bcd'')))
      ((initial_state (js ''s''))\<lparr>streamingToolOutput := replicate 4999 0x61\<rparr>))) = 5000"
proof -
  let ?st = "(initial_state (js ''s''))\<lparr>streamingToolOutput := replicate 4999 (0x61 :: jschar)\<rparr>"
  let ?s = "(?st, snd (begin_turn (render_of (initial_state (js ''s''))) (js ''hi'') (initial_state (js ''s''))))"
  have b: "length (streamingToolOutput (fst ?s)) \<le> 5000" by simp
  from b live_output_bounded [where s = ?s and P = ref_platform and
      events = "[sse_event ''tool_output'' (js ''bcd''), sse_event ''tool_output'' (js ''efg'')]"]
  have f: "length (streamingToolOutput (fst (fold (fold_event ref_platform)
      [sse_event ''tool_output'' (js ''bcd''), sse_event ''tool_output'' (js ''efg'')] ?s)))
      \<le> 5000" by blast
  have h: "progress_heartbeat ref_platform (Val (JStr (js ''bcd''))) = None"
    by (simp add: eval_defs)
  have n: "js_String ref_platform (Val (JStr (js ''bcd''))) = js ''bcd''"
    by (simp add: js_String_def)
  have l: "length (js ''bcd'') = 3" by (simp add: js_def)
  from h live_output_bounded [where P = ref_platform and data = "Val (JStr (js ''bcd''))"
      and st = ?st]
  have "streamingToolOutput (on_tool_output ref_platform (Val (JStr (js ''bcd''))) ?st) =
          drop 3 (replicate 4999 0x61 @ [nl] @ js ''bcd'')"
    by (simp add: n l)
  then have e: "streamingToolOutput (on_tool_output ref_platform (Val (JStr (js ''bcd''))) ?st) =
          replicate 4996 0x61 @ [nl] @ js ''bcd''"
    by simp
  then have "length (streamingToolOutput (on_tool_output ref_platform (Val (JStr (js ''bcd''))) ?st))
      = 5000" by (simp add: l)
  with b f h e show ?thesis by blast
qed


section \<open>Cancellation\<close>

lemma cancel_turn_end: "cancel_turn P s = end_turn P (Some AbortError) s"
  by (cases s) (simp add: cancel_turn_def stopStreaming_def end_turn_def catch_turn_def cleanup_def)

lemma sendMessage_cancelled:
  "\<not> r_isStreaming rn \<Longrightarrow>
   sendMessage P rn content (Body chunks (Some AbortError)) st =
     cancel_turn P (fold (read_round P) chunks (begin_turn rn content st))"
  by (simp add: sendMessage_def Let_def cancel_turn_end)

text \<open>
  Claim C6, as the code has it. When the turn is cancelled, the \<^verbatim>\<open>catch\<close> block tests
  \<^verbatim>\<open>accumulated.trim()\<close>: if the accumulated text is not empty once trimmed, one
  assistant message is committed whose content is the trimmed text followed by a blank
  line and \<^verbatim>\<open>*(generation stopped)*\<close>, without token usage; otherwise no message is
  committed. Either way \<^verbatim>\<open>finally\<close> resets the turn, and the next \<^verbatim>\<open>sendMessage\<close>,
  through the callback of the render that follows, issues its request and appends its
  user message. A stream whose read is rejected with \<^verbatim>\<open>AbortError\<close> is such a
  cancellation.
\<close>

theorem cancellation_commits_trimmed_partial:
  "messages (cancel_turn P (st, t)) =
     messages st @
       (if trim (accumulated t) \<noteq> [] then
          [assistant_message st (trim (accumulated t) @ [nl, nl] @ js ''*(generation stopped)*'')
             None]
        else []) \<and>
   turn_reset (cancel_turn P (st, t)) \<and>
   chat_requests (sendMessage P (render_of (cancel_turn P (st, t))) content resp
        (cancel_turn P (st, t))) =
     chat_requests st @ [chat_request (render_of st) st content] \<and>
   (\<exists>rest. messages (sendMessage P (render_of (cancel_turn P (st, t))) content resp
        (cancel_turn P (st, t))) =
      messages (cancel_turn P (st, t)) @ user_message st content # rest) \<and>
   (\<not> r_isStreaming rn \<longrightarrow>
      sendMessage P rn content (Body chunks (Some AbortError)) st =
        cancel_turn P (fold (read_round P) chunks (begin_turn rn content st)))"
proof -
  let ?st = "cancel_turn P (st, t)"
  have m: "messages ?st =
     messages st @
       (if trim (accumulated t) \<noteq> [] then
          [assistant_message st (trim (accumulated t) @ [nl, nl] @ js ''*(generation stopped)*'')
             None]
        else [])"
    by (simp add: cancel_turn_end end_turn_def catch_turn_def cleanup_def assistant_message_def)
  have r: "turn_reset ?st" by (simp add: cancel_turn_end end_turn_reset)
  then have n: "\<not> r_isStreaming (render_of ?st)" by (rule render_of_reset)
  have f: "chat_request (render_of ?st) ?st content = chat_request (render_of st) st content"
    "user_message ?st content = user_message st content" "chat_requests ?st = chat_requests st"
    using end_turn_fixed [of P "Some AbortError" "(st, t)"]
      end_turn_requests [of P "Some AbortError" "(st, t)"]
    by (simp_all add: cancel_turn_end chat_request_def user_message_def render_of_def)
  from sendMessage_accepted [OF n, of P content resp ?st] f
  have a: "chat_requests (sendMessage P (render_of ?st) content resp ?st) =
             chat_requests st @ [chat_request (render_of st) st content]"
    and b: "\<exists>rest. messages (sendMessage P (render_of ?st) content resp ?st) =
      messages ?st @ user_message st content # rest"
    by simp_all
  from m r a b show ?thesis by (simp add: sendMessage_cancelled)
qed

text \<open>The scenario of C6: \<^verbatim>\<open>text("partial")\<close>, then the cancellation.\<close>

theorem cancellation_commits_trimmed_partial_witness:
  "\<not> r_isStreaming (render_of (initial_state (js ''s''))) \<and>
   map m_content (messages (sendMessage ref_platform (render_of (initial_state (js ''s''))) (js ''hi'')
      (Body [ascii_bytes (sse_line ''text'' (js ''partial''))] (Some AbortError))
      (initial_state (js ''s'')))) =
     [js ''hi'', js ''partial'' @ [nl, nl] @ js ''*(generation stopped)*'']"
proof -
  let ?chunks = "[ascii_bytes (sse_line ''text'' (js ''partial''))]"
  let ?st1 = "(fst (begin_turn (render_of (initial_state (js ''s''))) (js ''hi'') (initial_state (js ''s''))))
              \<lparr>accumulatedRef := js ''partial'', streamingContent := js ''partial''\<rparr>"
  let ?t1 = "(snd (begin_turn (render_of (initial_state (js ''s''))) (js ''hi'') (initial_state (js ''s''))))
              \<lparr>accumulated := js ''partial'', decoder := new_decoder\<lparr>bom_seen := True\<rparr>\<rparr>"
  have n: "\<not> r_isStreaming (render_of (initial_state (js ''s'')))"
    by (simp add: initial_state_def render_of_def)
  have s: "fold (read_round ref_platform) ?chunks
             (begin_turn (render_of (initial_state (js ''s''))) (js ''hi'') (initial_state (js ''s''))) = (?st1, ?t1)"
    by (simp add: eval_defs)
  have t: "trim (js ''partial'') = js ''partial''" "js ''partial'' \<noteq> []"
    by (simp_all add: eval_defs)
  from n cancellation_commits_trimmed_partial [where P = ref_platform and content = "js ''hi''"
      and st = "initial_state (js ''s'')" and chunks = ?chunks
      and rn = "render_of (initial_state (js ''s''))"]
  have e: "sendMessage ref_platform (render_of (initial_state (js ''s''))) (js ''hi'') (Body ?chunks (Some AbortError))
      (initial_state (js ''s'')) =
    cancel_turn ref_platform (fold (read_round ref_platform) ?chunks
      (begin_turn (render_of (initial_state (js ''s''))) (js ''hi'') (initial_state (js ''s''))))" by blast
  from cancellation_commits_trimmed_partial [where P = ref_platform and st = ?st1 and t = ?t1
      and content = "[]" and resp = NoBody and chunks = "[]"
      and rn = "render_of (initial_state (js ''s''))"]
  have "messages (cancel_turn ref_platform (?st1, ?t1)) =
     messages ?st1 @
       (if trim (accumulated ?t1) \<noteq> [] then
          [assistant_message ?st1
             (trim (accumulated ?t1) @ [nl, nl] @ js ''*(generation stopped)*'') None]
        else [])"
    by (rule conjunct1)
  then have "map m_content (messages (cancel_turn ref_platform (?st1, ?t1))) =
     [js ''hi'', js ''partial'' @ [nl, nl] @ js ''*(generation stopped)*'']"
    by (simp add: t begin_turn_def initial_state_def assistant_message_def)
  with n e s show ?thesis by simp
qed

text \<open>
  C6 as stated fails: after \<^verbatim>\<open>text(" ")\<close> the text buffer is not empty, and the
  cancellation commits no assistant message.
\<close>

theorem cancellation_whitespace_counterexample:
  "accumulated (snd (fold_event ref_platform (sse_event ''text'' (js '' ''))
      (begin_turn (render_of (initial_state (js ''s''))) (js ''hi'') (initial_state (js ''s''))))) = js '' '' \<and>
   js '' '' \<noteq> [] \<and>
   messages (cancel_turn ref_platform (fold_event ref_platform (sse_event ''text'' (js '' ''))
      (begin_turn (render_of (initial_state (js ''s''))) (js ''hi'') (initial_state (js ''s''))))) =
     [user_message (initial_state (js ''s'')) (js ''hi'')]"
  by (simp add: eval_defs)

section \<open>Normal completion\<close>

text \<open>
  Claim C7, as the code has it. On normal completion the test is
  \<^verbatim>\<open>accumulated.trim()\<close>: if the accumulated text is not empty once trimmed, exactly one
  assistant message is committed, whose content is the trimmed text and whose token usage
  is the captured payload, stringified, when one was captured; otherwise no assistant
  message is committed. For \<^verbatim>\<open>text("Hello")\<close>, \<^verbatim>\<open>text(" world")\<close>, \<^verbatim>\<open>done\<close> the
  committed content is exactly \<^verbatim>\<open>Hello world\<close>.
\<close>

theorem completion_commits_trimmed_text:
  "messages (end_turn P None (st, t)) =
     messages st @
       (if trim (accumulated t) \<noteq> [] then
          [assistant_message st (trim (accumulated t))
             (if truthy (Val (tokenUsage t)) then Some (json_stringify P (tokenUsage t))
              else None)]
        else []) \<and>
   map m_content (messages (end_turn P None
      (fold (fold_event P)
         [sse_event ''text'' (js ''Hello''), sse_event ''text'' (js '' world''),
          sse_event ''done'' []]
         (begin_turn rn content st)))) =
     map m_content (messages st) @ [content, js ''Hello world'']"
proof -
  have a: "messages (end_turn P None (st, t)) =
     messages st @
       (if trim (accumulated t) \<noteq> [] then
          [assistant_message st (trim (accumulated t))
             (if truthy (Val (tokenUsage t)) then Some (json_stringify P (tokenUsage t))
              else None)]
        else [])"
    by (simp add: end_turn_def complete_turn_def cleanup_def assistant_message_def)
  have t: "trim (js ''Hello world'') = js ''Hello world''" by (simp add: eval_defs)
  have h: "js ''Hello'' @ js '' world'' = js ''Hello world''" "js ''Hello world'' \<noteq> []"
    by (simp_all add: js_def)
  have g: "get_prop (sse_event k p) (js ''type'') = Some (Val (JStr (js k)))"
    "field (sse_event k p) ''data'' = Val (JStr p)" for k p
    by (simp_all add: sse_event_def field_def js_def)
  have y: "is_type (Val (JStr (js ''text''))) ''text''"
    "\<not> is_type (Val (JStr (js ''done''))) ''text''"
    "\<not> is_type (Val (JStr (js ''done''))) ''tool_use''"
    "\<not> is_type (Val (JStr (js ''done''))) ''tool_result''"
    "\<not> is_type (Val (JStr (js ''done''))) ''tool_output''"
    "\<not> is_type (Val (JStr (js ''done''))) ''status''"
    "\<not> is_type (Val (JStr (js ''done''))) ''result''"
    "\<not> is_type (Val (JStr (js ''done''))) ''permission_request''"
    "\<not> is_type (Val (JStr (js ''done''))) ''error''"
    by (simp_all add: is_type_def strict_eq_def js_def)
  have b: "map m_content (messages (end_turn P None
      (fold (fold_event P)
         [sse_event ''text'' (js ''Hello''), sse_event ''text'' (js '' world''),
          sse_event ''done'' []]
         (begin_turn rn content st)))) =
     map m_content (messages st) @ [content, js ''Hello world'']"
    by (simp add: fold_event_def handle_event_def g y on_text_def js_String_def Let_def
        begin_turn_def end_turn_def complete_turn_def cleanup_def h t)
  from a b show ?thesis by (rule conjI)
qed

text \<open>
  C7 as stated fails: after \<^verbatim>\<open>text("Hello ")\<close> the committed content is
  \<^verbatim>\<open>Hello\<close>, not the accumulated text; after \<^verbatim>\<open>text(" ")\<close> the buffer is not
  empty and no assistant message is committed.
\<close>

theorem completion_trim_counterexample:
  "accumulated (snd (fold_event ref_platform (sse_event ''text'' (js ''Hello ''))
      (begin_turn (render_of (initial_state (js ''s''))) (js ''hi'') (initial_state (js ''s''))))) = js ''Hello '' \<and>
   map m_content (messages (end_turn ref_platform None
      (fold_event ref_platform (sse_event ''text'' (js ''Hello ''))
         (begin_turn (render_of (initial_state (js ''s''))) (js ''hi'') (initial_state (js ''s'')))))) = [js ''hi'', js ''Hello''] \<and>
   js ''Hello'' \<noteq> js ''Hello '' \<and>
   accumulated (snd (fold_event ref_platform (sse_event ''text'' (js '' ''))
      (begin_turn (render_of (initial_state (js ''s''))) (js ''hi'') (initial_state (js ''s''))))) \<noteq> [] \<and>
   map m_content (messages (end_turn ref_platform None
      (fold_event ref_platform (sse_event ''text'' (js '' ''))
         (begin_turn (render_of (initial_state (js ''s''))) (js ''hi'') (initial_state (js ''s'')))))) = [js ''hi'']"
  by (simp add: eval_defs)


section \<open>The permission decision\<close>

text \<open>
  Claim C8, as the code has it. Through the callback of a render that shows a pending
  request, \<^verbatim>\<open>handlePermissionResponse\<close> leaves the text of the turn alone and, at once,
  before the \<^verbatim>\<open>fetch\<close> is awaited, records the decision in \<^verbatim>\<open>permissionResolved\<close>,
  clears the pending-approval session and posts the decision; the request itself stays
  pending and no timer is set yet. Once the \<^verbatim>\<open>fetch\<close> has settled, in the same way
  whether it resolved or was rejected, a one-second timer is set and nothing else
  changes; only when that timer fires is the gate idle.
\<close>

theorem permission_decision_deferred_idle:
  assumes "truthy (Val (r_pendingPermission rn))"
  shows "streamingContent (permission_decide rn d st) = streamingContent st \<and>
         accumulatedRef (permission_decide rn d st) = accumulatedRef st \<and>
         pendingPermission (permission_decide rn d st) = pendingPermission st \<and>
         permissionResolved (permission_decide rn d st) =
           Some (if d = DecideDeny then Deny else Allow) \<and>
         pendingApprovalSessionId (permission_decide rn d st) = [] \<and>
         permission_posts (permission_decide rn d st) =
           permission_posts st @ [permission_body d (r_pendingPermission rn)] \<and>
         timers (permission_decide rn d st) = timers st \<and>
         handlePermissionResponse rn d delivered st =
           (permission_decide rn d st)\<lparr>timers := timers st @ [ClearPermission]\<rparr> \<and>
         streamingContent (handlePermissionResponse rn d delivered st) = streamingContent st \<and>
         accumulatedRef (handlePermissionResponse rn d delivered st) = accumulatedRef st \<and>
         pendingPermission (handlePermissionResponse rn d delivered st) = pendingPermission st \<and>
         permissionResolved (handlePermissionResponse rn d delivered st) =
           Some (if d = DecideDeny then Deny else Allow) \<and>
         pendingApprovalSessionId (handlePermissionResponse rn d delivered st) = [] \<and>
         timers (handlePermissionResponse rn d delivered st) = timers st @ [ClearPermission] \<and>
         handlePermissionResponse rn d True st = handlePermissionResponse rn d False st \<and>
         fire_timer (length (timers st)) (handlePermissionResponse rn d delivered st) =
           (permission_decide rn d st)\<lparr>pendingPermission := JNull, permissionResolved := None\<rparr>"
  using assms
  by (simp add: handlePermissionResponse_def permission_decide_def permission_settled_def
      fire_timer_def)

text \<open>A \<^verbatim>\<open>permission_request\<close>, a deny whose delivery fails, and the timer.\<close>

theorem permission_decision_deferred_idle_witness:
  \<open>truthy (Val (r_pendingPermission (render_of (fst (fold_event ref_platform
      (sse_event ''permission_request'' (js ''{"permissionRequestId":"p1"}''))
      (begin_turn (render_of (initial_state (js ''s''))) (js ''hi'')
         (initial_state (js ''s'')))))))) \<and>
   permissionResolved (permission_decide
     (render_of (fst (fold_event ref_platform
      (sse_event ''permission_request'' (js ''{"permissionRequestId":"p1"}''))
      (begin_turn (render_of (initial_state (js ''s''))) (js ''hi'')
         (initial_state (js ''s''))))))
     DecideDeny
     (fst (fold_event ref_platform
      (sse_event ''permission_request'' (js ''{"permissionRequestId":"p1"}''))
      (begin_turn (render_of (initial_state (js ''s''))) (js ''hi'')
         (initial_state (js ''s'')))))) = Some Deny \<and>
   pendingPermission (fire_timer 0 (handlePermissionResponse
     (render_of (fst (fold_event ref_platform
      (sse_event ''permission_request'' (js ''{"permissionRequestId":"p1"}''))
      (begin_turn (render_of (initial_state (js ''s''))) (js ''hi'')
         (initial_state (js ''s''))))))
     DecideDeny False
     (fst (fold_event ref_platform
      (sse_event ''permission_request'' (js ''{"permissionRequestId":"p1"}''))
      (begin_turn (render_of (initial_state (js ''s''))) (js ''hi'')
         (initial_state (js ''s''))))))) = JNull\<close>
proof -
  let ?st = \<open>fst (fold_event ref_platform
      (sse_event ''permission_request'' (js ''{"permissionRequestId":"p1"}''))
      (begin_turn (render_of (initial_state (js ''s''))) (js ''hi'')
         (initial_state (js ''s''))))\<close>
  have p: "truthy (Val (r_pendingPermission (render_of ?st)))" by (simp add: eval_defs)
  have t: "length (timers ?st) = 0" by (simp add: eval_defs)
  note h = permission_decision_deferred_idle [OF p, where d = DecideDeny and delivered = False
      and st = ?st]
  from h have r: "permissionResolved (permission_decide (render_of ?st) DecideDeny ?st) =
      Some Deny" by simp
  from h
  have "fire_timer (length (timers ?st))
          (handlePermissionResponse (render_of ?st) DecideDeny False ?st) =
        (permission_decide (render_of ?st) DecideDeny ?st)\<lparr>pendingPermission := JNull,
              permissionResolved := None\<rparr>" by blast
  then have "pendingPermission (fire_timer 0
      (handlePermissionResponse (render_of ?st) DecideDeny False ?st)) = JNull"
    by (simp only: t) simp
  with p r show ?thesis by blast
qed

text \<open>
  C8 as stated fails: after the deny has been submitted and delivered, the request is
  still pending.
\<close>

theorem permission_deny_counterexample:
  \<open>pendingPermission (handlePermissionResponse
     (render_of (fst (fold_event ref_platform
      (sse_event ''permission_request'' (js ''{"permissionRequestId":"p1"}''))
      (begin_turn (render_of (initial_state (js ''s''))) (js ''hi'')
         (initial_state (js ''s''))))))
     DecideDeny True
     (fst (fold_event ref_platform
      (sse_event ''permission_request'' (js ''{"permissionRequestId":"p1"}''))
      (begin_turn (render_of (initial_state (js ''s''))) (js ''hi'')
         (initial_state (js ''s'')))))) =
     JObj [(js ''permissionRequestId'', JStr (js ''p1''))] \<and>
   JObj [(js ''permissionRequestId'', JStr (js ''p1''))] \<noteq> JNull\<close>
  by (simp add: eval_defs)


section \<open>The status timer\<close>

text \<open>
  Claim C9, as the code has it. The timer set by a \<^verbatim>\<open>status\<close> event that carries a
  session identifier is a bare \<^verbatim>\<open>setTimeout\<close>: no exit path of the turn and no start
  of a turn removes it, and when it fires it sets the status text to \<^verbatim>\<open>undefined\<close> in
  whatever state the view is then, changing nothing else.
\<close>

theorem status_timer_outlives_turn:
  "timers (end_turn P ending s) = timers (fst s) \<and>
   timers (fst (begin_turn rn content st)) = timers st \<and>
   (truthy (field statusData ''session_id'') \<and>
    json_parse P (js_String P data) = Some statusData \<longrightarrow>
      timers (on_status P data st) = timers st @ [ClearStatus]) \<and>
   (i < length (timers st) \<and> timers st ! i = ClearStatus \<longrightarrow>
      fire_timer i st =
        st\<lparr>statusText := Undefined, timers := take i (timers st) @ drop (Suc i) (timers st)\<rparr>)"
proof (intro conjI impI)
  show "timers (end_turn P ending s) = timers (fst s)"
    using end_turn_fixed [of P ending s] by simp
  show "timers (fst (begin_turn rn content st)) = timers st"
    by (simp add: begin_turn_def)
next
  assume a: "truthy (field statusData ''session_id'') \<and>
    json_parse P (js_String P data) = Some statusData"
  then show "timers (on_status P data st) = timers st @ [ClearStatus]"
    by (cases "get_prop statusData (js ''session_id'')") (simp_all add: on_status_def field_def)
next
  assume "i < length (timers st) \<and> timers st ! i = ClearStatus"
  then show "fire_timer i st =
        st\<lparr>statusText := Undefined, timers := take i (timers st) @ drop (Suc i) (timers st)\<rparr>"
    by (simp add: fire_timer_def)
qed

text \<open>A turn that sets the timer and completes: the timer is still pending.\<close>

theorem status_timer_outlives_turn_witness:
  \<open>truthy (field (JObj [(js ''session_id'', JStr (js ''abc''))]) ''session_id'') \<and>
    json_parse ref_platform (js_String ref_platform (Val (JStr (js ''{"session_id":"abc"}'')))) =
      Some (JObj [(js ''session_id'', JStr (js ''abc''))]) \<and>
    timers (on_status ref_platform (Val (JStr (js ''{"session_id":"abc"}'')))
      (initial_state (js ''s''))) = [ClearStatus] \<and>
    timers (sendMessage ref_platform (render_of (initial_state (js ''s''))) (js ''first'')
      (Body [ascii_bytes (sse_line ''status'' (js ''{"session_id":"abc"}''))] None)
      (initial_state (js ''s''))) = [ClearStatus] \<and>
    statusText (fire_timer 0 (sendMessage ref_platform (render_of (initial_state (js ''s''))) (js ''first'')
      (Body [ascii_bytes (sse_line ''status'' (js ''{"session_id":"abc"}''))] None)
      (initial_state (js ''s'')))) = Undefined\<close>
proof -
  let ?st = \<open>sendMessage ref_platform (render_of (initial_state (js ''s''))) (js ''first'')
      (Body [ascii_bytes (sse_line ''status'' (js ''{"session_id":"abc"}''))] None)
      (initial_state (js ''s''))\<close>
  let ?sd = "JObj [(js ''session_id'', JStr (js ''abc''))]"
  have a: \<open>truthy (field ?sd ''session_id'') \<and>
    json_parse ref_platform (js_String ref_platform (Val (JStr (js ''{"session_id":"abc"}'')))) =
      Some ?sd\<close>
    by (simp add: eval_defs)
  from a status_timer_outlives_turn [where P = ref_platform and statusData = ?sd and
      data = \<open>Val (JStr (js ''{"session_id":"abc"}''))\<close> and st = "initial_state (js ''s'')"]
  have \<open>timers (on_status ref_platform (Val (JStr (js ''{"session_id":"abc"}'')))
      (initial_state (js ''s''))) = timers (initial_state (js ''s'')) @ [ClearStatus]\<close>
    by blast
  then have o: \<open>timers (on_status ref_platform (Val (JStr (js ''{"session_id":"abc"}'')))
      (initial_state (js ''s''))) = [ClearStatus]\<close>
    by (simp add: initial_state_def)
  have t: "timers ?st = [ClearStatus]" by (simp add: eval_defs)
  then have h: "0 < length (timers ?st) \<and> timers ?st ! 0 = ClearStatus" by simp
  from h status_timer_outlives_turn [where st = ?st and i = 0]
  have "fire_timer 0 ?st =
        ?st\<lparr>statusText := Undefined, timers := take 0 (timers ?st) @ drop (Suc 0) (timers ?st)\<rparr>"
    by blast
  then have "statusText (fire_timer 0 ?st) = Undefined" by simp
  with a o t show ?thesis by blast
qed

text \<open>
  C9 as stated fails: the timer of the first turn fires during the second and clears the
  status \<^verbatim>\<open>Thinking\<close> that the second turn has set.
\<close>

theorem status_timer_counterexample:
  \<open>isStreaming (fst (fold_event ref_platform (sse_event ''status'' (js ''Thinking''))
      (begin_turn
        (render_of (sendMessage ref_platform (render_of (initial_state (js ''s'')))
          (js ''first'')
          (Body [ascii_bytes (sse_line ''status'' (js ''{"session_id":"abc"}''))] None)
          (initial_state (js ''s''))))
        (js ''second'')
        (sendMessage ref_platform (render_of (initial_state (js ''s''))) (js ''first'')
          (Body [ascii_bytes (sse_line ''status'' (js ''{"session_id":"abc"}''))] None)
          (initial_state (js ''s'')))))) \<and>
   statusText (fst (fold_event ref_platform (sse_event ''status'' (js ''Thinking''))
      (begin_turn
        (render_of (sendMessage ref_platform (render_of (initial_state (js ''s'')))
          (js ''first'')
          (Body [ascii_bytes (sse_line ''status'' (js ''{"session_id":"abc"}''))] None)
          (initial_state (js ''s''))))
        (js ''second'')
        (sendMessage ref_platform (render_of (initial_state (js ''s''))) (js ''first'')
          (Body [ascii_bytes (sse_line ''status'' (js ''{"session_id":"abc"}''))] None)
          (initial_state (js ''s'')))))) = Val (JStr (js ''Thinking'')) \<and>
   statusText (fire_timer 0 (fst (fold_event ref_platform (sse_event ''status'' (js ''Thinking''))
      (begin_turn
        (render_of (sendMessage ref_platform (render_of (initial_state (js ''s'')))
          (js ''first'')
          (Body [ascii_bytes (sse_line ''status'' (js ''{"session_id":"abc"}''))] None)
          (initial_state (js ''s''))))
        (js ''second'')
        (sendMessage ref_platform (render_of (initial_state (js ''s''))) (js ''first'')
          (Body [ascii_bytes (sse_line ''status'' (js ''{"session_id":"abc"}''))] None)
          (initial_state (js ''s''))))))) = Undefined\<close>
proof -
  have s: \<open>sendMessage ref_platform (render_of (initial_state (js ''s''))) (js ''first'')
          (Body [ascii_bytes (sse_line ''status'' (js ''{"session_id":"abc"}''))] None)
          (initial_state (js ''s'')) =
        (initial_state (js ''s''))
          \<lparr>messages := [user_message (initial_state (js ''s'')) (js ''first'')],
           chat_requests :=
             [chat_request (render_of (initial_state (js ''s''))) (initial_state (js ''s''))
                (js ''first'')],
           timers := [ClearStatus]\<rparr>\<close>
    by (simp add: eval_defs)
  show ?thesis unfolding s by (simp add: eval_defs)
qed


section \<open>The result event\<close>

text \<open>
  Claim C10, as the code has it. Every \<^verbatim>\<open>result\<close> event clears the status text. Its
  \<^verbatim>\<open>usage\<close> is captured when the payload parses and the value is truthy, replacing
  what an earlier event left; a payload that does not parse, or whose \<^verbatim>\<open>usage\<close> is
  missing or falsy, leaves the captured value as it is. On normal completion with a
  non-blank text, a truthy captured value is attached, stringified, to the assistant
  message.
\<close>

theorem result_event_usage:
  "statusText (fst (on_result P data (st, t))) = Undefined \<and>
   (json_parse P (js_String P data) = Some resultData \<and>
    get_prop resultData (js ''usage'') = Some (Val usage) \<and> truthy (Val usage) \<longrightarrow>
      tokenUsage (snd (on_result P data (st, t))) = usage) \<and>
   (json_parse P (js_String P data) = None \<or>
    (json_parse P (js_String P data) = Some resultData \<and>
     \<not> truthy (field resultData ''usage'')) \<longrightarrow>
      tokenUsage (snd (on_result P data (st, t))) = tokenUsage t) \<and>
   (trim (accumulated t) \<noteq> [] \<and> truthy (Val (tokenUsage t)) \<longrightarrow>
      messages (end_turn P None (st, t)) =
        messages st @
          [assistant_message st (trim (accumulated t)) (Some (json_stringify P (tokenUsage t)))])"
proof (intro conjI impI)
  show "statusText (fst (on_result P data (st, t))) = Undefined"
    by (simp add: on_result_def)
next
  assume "json_parse P (js_String P data) = Some resultData \<and>
    get_prop resultData (js ''usage'') = Some (Val usage) \<and> truthy (Val usage)"
  then show "tokenUsage (snd (on_result P data (st, t))) = usage"
    by (simp add: on_result_def)
next
  assume "json_parse P (js_String P data) = None \<or>
    (json_parse P (js_String P data) = Some resultData \<and>
     \<not> truthy (field resultData ''usage''))"
  then show "tokenUsage (snd (on_result P data (st, t))) = tokenUsage t"
    by (auto simp: on_result_def field_def split: option.splits jsval.splits)
next
  assume "trim (accumulated t) \<noteq> [] \<and> truthy (Val (tokenUsage t))"
  then show "messages (end_turn P None (st, t)) =
        messages st @
          [assistant_message st (trim (accumulated t)) (Some (json_stringify P (tokenUsage t)))]"
    by (simp add: end_turn_def complete_turn_def cleanup_def assistant_message_def)
qed

text \<open>Two \<^verbatim>\<open>result\<close> events with usage objects: the later one is attached.\<close>

theorem result_event_usage_witness:
  \<open>tokenUsage (snd (on_result ref_platform
      (Val (JStr (js ''{"usage":{"input_tokens":12,"output_tokens":7}}'')))
      (begin_turn (render_of (initial_state (js ''s''))) (js ''hi'') (initial_state (js ''s''))))) =
      JObj [(js ''input_tokens'', JNum 12), (js ''output_tokens'', JNum 7)] \<and>
   tokenUsage (snd (on_result ref_platform (Val (JStr (js ''{"usage":0}'')))
      (fst (begin_turn (render_of (initial_state (js ''s''))) (js ''hi'') (initial_state (js ''s''))),
       (snd (begin_turn (render_of (initial_state (js ''s''))) (js ''hi'') (initial_state (js ''s''))))
         \<lparr>tokenUsage := JObj [(js ''input_tokens'', JNum 3)]\<rparr>))) =
      JObj [(js ''input_tokens'', JNum 3)] \<and>
   map m_token_usage (messages (end_turn ref_platform None
      (fold (fold_event ref_platform)
         [sse_event ''result'' (js ''{"usage":{"input_tokens":3}}''),
          sse_event ''result'' (js ''{"usage":{"input_tokens":12,"output_tokens":7}}''),
          sse_event ''text'' (js ''ok'')]
         (begin_turn (render_of (initial_state (js ''s''))) (js ''hi'') (initial_state (js ''s'')))))) =
    [None, Some (js ''{"input_tokens":12,"output_tokens":7}'')]\<close>
proof -
  let ?u = "JObj [(js ''input_tokens'', JNum 12), (js ''output_tokens'', JNum 7)]"
  let ?begun = "fst (begin_turn (render_of (initial_state (js ''s''))) (js ''hi'') (initial_state (js ''s'')))"
  let ?locals = "snd (begin_turn (render_of (initial_state (js ''s''))) (js ''hi'') (initial_state (js ''s'')))"
  let ?st = "?begun\<lparr>accumulatedRef := js ''ok'', streamingContent := js ''ok''\<rparr>"
  let ?t = "?locals\<lparr>accumulated := js ''ok'', tokenUsage := ?u\<rparr>"
  have c: \<open>json_parse ref_platform (js_String ref_platform
        (Val (JStr (js ''{"usage":{"input_tokens":12,"output_tokens":7}}'')))) =
        Some (JObj [(js ''usage'', ?u)]) \<and>
      get_prop (JObj [(js ''usage'', ?u)]) (js ''usage'') = Some (Val ?u) \<and> truthy (Val ?u)\<close>
    by (simp add: eval_defs)
  from c result_event_usage [where P = ref_platform and st = ?begun and t = ?locals and usage = ?u
      and resultData = "JObj [(js ''usage'', ?u)]"
      and data = \<open>Val (JStr (js ''{"usage":{"input_tokens":12,"output_tokens":7}}''))\<close>]
  have x: \<open>tokenUsage (snd (on_result ref_platform
      (Val (JStr (js ''{"usage":{"input_tokens":12,"output_tokens":7}}''))) (?begun, ?locals))) = ?u\<close>
    by blast
  have z: \<open>json_parse ref_platform (js_String ref_platform (Val (JStr (js ''{"usage":0}'')))) =
        None \<or>
      (json_parse ref_platform (js_String ref_platform (Val (JStr (js ''{"usage":0}'')))) =
        Some (JObj [(js ''usage'', JNum 0)]) \<and>
       \<not> truthy (field (JObj [(js ''usage'', JNum 0)]) ''usage''))\<close>
    by (simp add: eval_defs)
  from z result_event_usage [where P = ref_platform and st = ?begun
      and t = "?locals\<lparr>tokenUsage := JObj [(js ''input_tokens'', JNum 3)]\<rparr>"
      and resultData = "JObj [(js ''usage'', JNum 0)]"
      and data = \<open>Val (JStr (js ''{"usage":0}''))\<close>]
  have y: \<open>tokenUsage (snd (on_result ref_platform (Val (JStr (js ''{"usage":0}'')))
      (?begun, ?locals\<lparr>tokenUsage := JObj [(js ''input_tokens'', JNum 3)]\<rparr>))) =
      tokenUsage (?locals\<lparr>tokenUsage := JObj [(js ''input_tokens'', JNum 3)]\<rparr>)\<close>
    by blast
  have s: \<open>fold (fold_event ref_platform)
         [sse_event ''result'' (js ''{"usage":{"input_tokens":3}}''),
          sse_event ''result'' (js ''{"usage":{"input_tokens":12,"output_tokens":7}}''),
          sse_event ''text'' (js ''ok'')]
         (begin_turn (render_of (initial_state (js ''s''))) (js ''hi'') (initial_state (js ''s''))) = (?st, ?t)\<close>
    by (simp add: eval_defs)
  have h: "trim (accumulated ?t) \<noteq> [] \<and> truthy (Val (tokenUsage ?t))"
    by (simp add: eval_defs)
  from h result_event_usage [where P = ref_platform and st = ?st and t = ?t]
  have "messages (end_turn ref_platform None (?st, ?t)) =
        messages ?st @
          [assistant_message ?st (trim (accumulated ?t))
             (Some (json_stringify ref_platform (tokenUsage ?t)))]"
    by blast
  then have \<open>map m_token_usage (messages (end_turn ref_platform None (?st, ?t))) =
    [None, Some (js ''{"input_tokens":12,"output_tokens":7}'')]\<close>
    by (simp add: eval_defs)
  then have m: \<open>map m_token_usage (messages (end_turn ref_platform None
      (fold (fold_event ref_platform)
         [sse_event ''result'' (js ''{"usage":{"input_tokens":3}}''),
          sse_event ''result'' (js ''{"usage":{"input_tokens":12,"output_tokens":7}}''),
          sse_event ''text'' (js ''ok'')]
         (begin_turn (render_of (initial_state (js ''s''))) (js ''hi'') (initial_state (js ''s'')))))) =
    [None, Some (js ''{"input_tokens":12,"output_tokens":7}'')]\<close>
    unfolding s .
  from x y m show ?thesis by simp
qed

text \<open>
  C10 as stated fails: a later \<^verbatim>\<open>result\<close> event whose \<^verbatim>\<open>usage\<close> is \<^verbatim>\<open>0\<close> is not
  captured, so the earlier usage is attached; and alone it attaches nothing.
\<close>

theorem result_falsy_usage_counterexample:
  \<open>map m_token_usage (messages (end_turn ref_platform None
      (fold (fold_event ref_platform)
         [sse_event ''result'' (js ''{"usage":{"input_tokens":3}}''),
          sse_event ''result'' (js ''{"usage":0}''),
          sse_event ''text'' (js ''ok'')]
         (begin_turn (render_of (initial_state (js ''s''))) (js ''hi'') (initial_state (js ''s'')))))) =
    [None, Some (js ''{"input_tokens":3}'')] \<and>
   json_stringify ref_platform (JNum 0) = js ''0'' \<and>
   js ''{"input_tokens":3}'' \<noteq> js ''0'' \<and>
   map m_token_usage (messages (end_turn ref_platform None
      (fold (fold_event ref_platform)
         [sse_event ''result'' (js ''{"usage":0}''),
          sse_event ''text'' (js ''ok'')]
         (begin_turn (render_of (initial_state (js ''s''))) (js ''hi'') (initial_state (js ''s'')))))) =
    [None, None]\<close>
  by (simp add: eval_defs)

end
